theory Spec2Isabelle
  imports Main "HOL-Library.AList"
begin

section \<open>Shared data: tokens, errors, Python dictionaries\<close>

text \<open>
  Python strings are modelled as \<^typ>\<open>string\<close>. A Python \<open>dict\<close> keeps its keys in
  insertion order and the order is observable (iteration, the first collision reported), so
  a dict is an association list with distinct keys: \<open>key in d\<close> is membership in the list
  of keys and \<open>d[key] = v\<close> is \<^const>\<open>AList.update\<close>, which overwrites in place or
  appends at the end.
\<close>

text \<open>
  Modelled from the spec: the \<open>Token\<close> class is not among the source files. The spec gives
  a token as a kind, a literal value and a source position.
\<close>

datatype token_kind =
    StringLiteral | NumericLiteral | Keyword | Punctuation
  | ObjectLiteral | ListLiteral | FormattedStringLiteral

record token =
  kind :: token_kind
  literal_value :: string
  source_position :: "nat \<times> nat"

text \<open>
  Every exception the modelled code can raise is a value. \<open>JMCValueError\<close> carries its
  message and the token it is reported at; \<open>UnboundLocalError\<close> carries the name of the
  local variable read before assignment; \<open>KeyError\<close> the missing key.
\<close>

datatype error =
    JMCBuildError string
  | JMCValueError string token
  | KeyError string
  | UnboundLocalError string
  | TypeError
  | AttributeError
  | OSError string
  | ValueError

type_synonym 'v pydict = "(string \<times> 'v) list"

definition dict_contains :: "string \<Rightarrow> 'v pydict \<Rightarrow> bool" where
  "dict_contains key d = (key \<in> set (map fst d))"

definition dict_getitem :: "(string \<rightharpoonup> 'v) \<Rightarrow> string \<Rightarrow> error + 'v" where
  "dict_getitem d key = (case d key of None \<Rightarrow> Inl (KeyError key) | Some v \<Rightarrow> Inr v)"

definition startswith :: "string \<Rightarrow> string \<Rightarrow> bool" where
  "startswith s p = (take (length p) s = p)"

fun join :: "string \<Rightarrow> string list \<Rightarrow> string" where
  "join sep [] = []"
| "join sep [x] = x"
| "join sep (x # y # ys) = x @ sep @ join sep (y # ys)"

section \<open>Item construction (\<open>ItemMixin\<close>)\<close>

text \<open>
  Modelled from the spec: the \<open>Item\<close> class is not among the source files. The source
  builds it positionally from the item-type string, the raw engine representation and the
  structured NBT, and reads the fields \<open>item_type\<close> and \<open>raw_nbt\<close>.
\<close>

record item =
  item_type :: string
  nbt_js :: string
  raw_nbt :: "token pydict"

text \<open>
  The built-in a mixin method runs in: \<open>self.args\<close> holds the evaluated argument of every
  parameter and \<open>self.raw_args\<close> the token each argument was written as.
\<close>

record jmc_function =
  args :: "string \<rightharpoonup> string"
  raw_args :: "string \<rightharpoonup> token"

text \<open>
  The collaborators \<open>create_item\<close> and \<open>create_new_item\<close> call are not among the source
  files and are taken as parameters; each may raise. \<open>parse_list\<close> is the first component
  of \<open>datapack.parse_list\<close> on a list token, \<open>formatted_text\<close> is \<open>str(FormattedText(...))\<close>
  of one lore line with italics off and score selectors disallowed, \<open>format_text\<close> is
  \<open>self.format_text\<close> of a parameter with the same two settings.
\<close>

record item_ext =
  parse_list :: "token \<Rightarrow> error + string list"
  formatted_text :: "string \<Rightarrow> token \<Rightarrow> error + string"
  parse_js_obj :: "token \<Rightarrow> error + token pydict"
  format_text :: "jmc_function \<Rightarrow> string \<Rightarrow> error + string"
  token_dict_to_raw_js_object :: "token pydict \<Rightarrow> error + string"

text \<open>
  The loop over \<open>modify_nbt.items()\<close> shared by both methods: a key already in \<open>nbt\<close>
  raises at the override's own token, or at \<open>error_token\<close> when one is given; otherwise the
  key is stored.
\<close>

fun modify_loop :: "token option \<Rightarrow> token pydict \<Rightarrow> token pydict \<Rightarrow> error + token pydict" where
  "modify_loop error_token nbt [] = Inr nbt"
| "modify_loop error_token nbt ((key, value_token) # rest) =
     (if dict_contains key nbt
      then Inl (JMCValueError (key @ '' is already inside the nbt'')
                  (case error_token of None \<Rightarrow> value_token | Some t \<Rightarrow> t))
      else modify_loop error_token (AList.update key value_token nbt) rest)"

definition create_new_item ::
  "item_ext \<Rightarrow> item \<Rightarrow> token pydict option \<Rightarrow> token option \<Rightarrow> error + item" where
  "create_new_item ext it modify_nbt error_token =
     (let modify_nbt = (case modify_nbt of None \<Rightarrow> [] | Some m \<Rightarrow> m) in
      case modify_loop error_token (raw_nbt it) modify_nbt of
        Inl e \<Rightarrow> Inl e
      | Inr nbt' \<Rightarrow>
          (case token_dict_to_raw_js_object ext nbt' of
             Inl e \<Rightarrow> Inl e
           | Inr raw \<Rightarrow> Inr \<lparr>item_type = item_type it, nbt_js = raw, raw_nbt = nbt'\<rparr>))"

text \<open>The loop formatting each lore line, in order, stopping at the first error.\<close>

fun format_lores :: "item_ext \<Rightarrow> token \<Rightarrow> string list \<Rightarrow> error + string list" where
  "format_lores ext tok [] = Inr []"
| "format_lores ext tok (lore # lores) =
     (case formatted_text ext lore tok of
        Inl e \<Rightarrow> Inl e
      | Inr lore_text \<Rightarrow>
          (case format_lores ext tok lores of
             Inl e \<Rightarrow> Inl e
           | Inr rest \<Rightarrow> Inr (lore_text # rest)))"

text \<open>
  The last loop of \<open>create_item\<close>. The local \<open>final_nbt\<close> is assigned only inside
  \<open>if bracket_components:\<close>, so it is an option here: \<open>None\<close> is the unbound local, and
  storing into it raises \<open>UnboundLocalError\<close>.
\<close>

fun final_loop :: "token pydict option \<Rightarrow> token pydict \<Rightarrow> error + token pydict option" where
  "final_loop final_nbt [] = Inr final_nbt"
| "final_loop final_nbt ((key, v) # rest) =
     (if key \<notin> set [''custom_name'', ''lore'']
      then (case final_nbt of
              None \<Rightarrow> Inl (UnboundLocalError ''final_nbt'')
            | Some f \<Rightarrow> final_loop (Some (AList.update key v f)) rest)
      else final_loop final_nbt rest)"

definition lore_step :: "item_ext \<Rightarrow> jmc_function \<Rightarrow> string \<Rightarrow> error + string list" where
  "lore_step ext self lore_param =
     (case dict_getitem (args self) lore_param of
        Inl e \<Rightarrow> Inl e
      | Inr lore_arg \<Rightarrow>
          if lore_arg \<noteq> [] then
            (case dict_getitem (raw_args self) lore_param of
               Inl e \<Rightarrow> Inl e
             | Inr tok \<Rightarrow>
                 (case parse_list ext tok of
                    Inl e \<Rightarrow> Inl e
                  | Inr lores \<Rightarrow> format_lores ext tok lores))
          else Inr [])"

definition nbt_step :: "item_ext \<Rightarrow> jmc_function \<Rightarrow> string \<Rightarrow> error + token pydict" where
  "nbt_step ext self nbt_param =
     (case dict_getitem (args self) nbt_param of
        Inl e \<Rightarrow> Inl e
      | Inr nbt_arg \<Rightarrow>
          if nbt_arg \<noteq> [] then
            (case dict_getitem (raw_args self) nbt_param of
               Inl e \<Rightarrow> Inl e
             | Inr tok \<Rightarrow> parse_js_obj ext tok)
          else Inr [])"

definition name_step :: "item_ext \<Rightarrow> jmc_function \<Rightarrow> string \<Rightarrow> error + string list" where
  "name_step ext self display_name_param =
     (case dict_getitem (args self) display_name_param of
        Inl e \<Rightarrow> Inl e
      | Inr name_arg \<Rightarrow>
          if name_arg \<noteq> [] then
            (case format_text ext self display_name_param of
               Inl e \<Rightarrow> Inl e
             | Inr name_text \<Rightarrow>
                 Inr (if name_text \<noteq> [] then [''custom_name='' @ name_text] else []))
          else Inr [])"

definition finish_item :: "item_ext \<Rightarrow> string \<Rightarrow> string list \<Rightarrow> token pydict \<Rightarrow> error + item" where
  "finish_item ext item_type' bracket_components nbt' =
     (let bracket_notation =
            (if bracket_components \<noteq> [] then ''['' @ join '','' bracket_components @ '']'' else []);
          final_nbt = (if bracket_components \<noteq> [] then Some [] else None) in
      case (if nbt' \<noteq> [] then final_loop final_nbt nbt' else Inr final_nbt) of
        Inl e \<Rightarrow> Inl e
      | Inr None \<Rightarrow> Inl (UnboundLocalError ''final_nbt'')
      | Inr (Some f) \<Rightarrow>
          (case token_dict_to_raw_js_object ext f of
             Inl e \<Rightarrow> Inl e
           | Inr raw \<Rightarrow>
               Inr \<lparr>item_type = item_type' @ bracket_notation, nbt_js = raw, raw_nbt = f\<rparr>))"

definition create_item ::
  "item_ext \<Rightarrow> jmc_function \<Rightarrow> string \<Rightarrow> string \<Rightarrow> string \<Rightarrow> string \<Rightarrow>
   token pydict option \<Rightarrow> error + item" where
  "create_item ext self item_type_param display_name_param lore_param nbt_param modify_nbt =
     (let modify_nbt = (case modify_nbt of None \<Rightarrow> [] | Some m \<Rightarrow> m) in
      case dict_getitem (args self) item_type_param of
        Inl e \<Rightarrow> Inl e
      | Inr item_type0 \<Rightarrow>
     (let item_type' = (if startswith item_type0 ''minecraft:'' then drop 10 item_type0
                        else item_type0) in
      case lore_step ext self lore_param of
        Inl e \<Rightarrow> Inl e
      | Inr lore_json \<Rightarrow>
     (case nbt_step ext self nbt_param of
        Inl e \<Rightarrow> Inl e
      | Inr nbt0 \<Rightarrow>
     (case modify_loop None nbt0 modify_nbt of
        Inl e \<Rightarrow> Inl e
      | Inr nbt' \<Rightarrow>
     (case name_step ext self display_name_param of
        Inl e \<Rightarrow> Inl e
      | Inr name_components \<Rightarrow>
     (let bracket_components =
            name_components @
            (if lore_json \<noteq> [] then [''lore=['' @ join '','' lore_json @ '']''] else []) in
      finish_item ext item_type' bracket_components nbt'))))))"

text \<open>The call with the default parameter names of the source's signature.\<close>

definition create_item_default :: "item_ext \<Rightarrow> jmc_function \<Rightarrow> token pydict option \<Rightarrow> error + item" where
  "create_item_default ext self modify_nbt =
     create_item ext self ''itemType'' ''displayName'' ''lore'' ''nbt'' modify_nbt"

subsection \<open>Concrete collaborators and calls\<close>

text \<open>
  A concrete set of collaborators, used to run the definitions: the formatter wraps its
  text in angle brackets, the raw object lists the keys of the dictionary.
\<close>

definition ext0 :: item_ext where
  "ext0 = \<lparr>parse_list = (\<lambda>t. Inr [literal_value t]),
           formatted_text = (\<lambda>s t. Inr (''<'' @ s @ ''>'')),
           parse_js_obj = (\<lambda>t. Inr [(literal_value t, t)]),
           format_text = (\<lambda>self p. case args self p of None \<Rightarrow> Inl (KeyError p)
                                     | Some s \<Rightarrow> Inr (''<'' @ s @ ''>'')),
           token_dict_to_raw_js_object = (\<lambda>d. Inr (''{'' @ join '','' (map fst d) @ ''}''))\<rparr>"

definition ext1 :: item_ext where
  "ext1 = ext0\<lparr>parse_js_obj := (\<lambda>t. Inr [(''custom_name'', t), (''Damage'', t)])\<rparr>"

definition tok0 :: "string \<Rightarrow> token" where
  "tok0 s = \<lparr>kind = ObjectLiteral, literal_value = s, source_position = (1, 1)\<rparr>"

definition self0 :: "string \<Rightarrow> string \<Rightarrow> string \<Rightarrow> string \<Rightarrow> jmc_function" where
  "self0 ty dn lo nb =
     \<lparr>args = [''itemType'' \<mapsto> ty, ''displayName'' \<mapsto> dn, ''lore'' \<mapsto> lo, ''nbt'' \<mapsto> nb],
      raw_args = [''itemType'' \<mapsto> tok0 ty, ''displayName'' \<mapsto> tok0 dn,
                  ''lore'' \<mapsto> tok0 lo, ''nbt'' \<mapsto> tok0 nb]\<rparr>"

section \<open>Strings\<close>

text \<open>
  A Python \<open>str\<close> is a sequence of code points; \<^typ>\<open>char\<close> has 256 values, so the model
  covers the strings over the code points below 256. \<open>replace\<close> is \<open>str.replace\<close> with a
  non-empty pattern (the source only calls it with the patterns \<open>minecraft.\<close> and \<open>:\<close>):
  occurrences are replaced from the left and do not overlap.
\<close>

fun replace :: "string \<Rightarrow> string \<Rightarrow> string \<Rightarrow> string" where
  "replace old new [] = []"
| "replace old new (c # cs) =
     (if old \<noteq> [] \<and> startswith (c # cs) old
      then new @ replace old new (drop (length old) (c # cs))
      else c # replace old new cs)"

definition lower_char :: "char \<Rightarrow> char" where
  "lower_char c =
     (let n = (of_char c :: nat) in
      if (65 \<le> n \<and> n \<le> 90) \<or> (192 \<le> n \<and> n \<le> 222 \<and> n \<noteq> 215)
      then char_of (n + 32) else c)"

definition lower :: "string \<Rightarrow> string" where
  "lower s = map lower_char s"

section \<open>The output model (\<open>DataPack\<close>)\<close>

datatype json =
    JNull
  | JBool bool
  | JNumber int
  | JString string
  | JArray "json list"
  | JObject "(string \<times> json) list"

text \<open>
  Modelled from the spec: the \<open>DataPack\<close> class is not among the source files. The spec
  gives the output model as \<open>functions\<close> (path to ordered command list; \<open>functions_dp\<close> here), JSON documents
  (path to JSON value; the source reads them as \<open>jsons\<close>), \<open>objectives\<close> (a set of
  objective names with their criteria), \<open>private_functions\<close> (category to deduplication
  key to generated function) and \<open>tick_commands\<close> (commands run every tick, in order).
  \<open>used_command\<close> records the deduplication keys already seen in this compilation, which
  is what \<open>is_never_used\<close> consults.
\<close>

record datapack =
  functions_dp :: "string list pydict"
  jsons :: "json pydict"
  objectives :: "(string \<times> string) set"
  private_functions :: "string \<rightharpoonup> (string \<rightharpoonup> string list)"
  tick_commands :: "string list"
  used_command :: "(string \<times> string list) set"

text \<open>
  Modelled from the spec: \<open>is_never_used\<close> is a method of \<open>JMCFunction\<close>, not among the
  source files. It answers whether this call, with these parameters, is new in the current
  compilation, and records it.
\<close>

definition is_never_used :: "string \<Rightarrow> string list \<Rightarrow> datapack \<Rightarrow> bool \<times> datapack" where
  "is_never_used call_string parameters dp =
     (if (call_string, parameters) \<in> used_command dp then (False, dp)
      else (True, dp\<lparr>used_command := insert (call_string, parameters) (used_command dp)\<rparr>))"

text \<open>Modelled from the spec: \<open>DataPack.add_objective\<close> registers an objective with its criterion.\<close>

definition add_objective :: "string \<Rightarrow> string \<Rightarrow> datapack \<Rightarrow> datapack" where
  "add_objective objective criteria dp =
     dp\<lparr>objectives := insert (objective, criteria) (objectives dp)\<rparr>"

text \<open>
  Modelled from the spec: \<open>DataPack.add_raw_private_function\<close> registers the commands as the
  private function of the category under the given key and returns the command that calls
  it. How the call is spelled is not in the spec: \<open>function_call\<close> is a parameter.
\<close>

definition add_raw_private_function ::
  "(string \<Rightarrow> string \<Rightarrow> string) \<Rightarrow> string \<Rightarrow> string list \<Rightarrow> string \<Rightarrow> datapack
   \<Rightarrow> string \<times> datapack" where
  "add_raw_private_function function_call name commands count dp =
     (let category = (case private_functions dp name of None \<Rightarrow> Map.empty | Some c \<Rightarrow> c) in
      (function_call name count,
       dp\<lparr>private_functions := (private_functions dp)(name \<mapsto> category(count \<mapsto> commands))\<rparr>))"

text \<open>Modelled from the spec: \<open>DataPack.add_tick_command\<close> appends to the per-tick dispatch list.\<close>

definition add_tick_command :: "string \<Rightarrow> datapack \<Rightarrow> datapack" where
  "add_tick_command command dp = dp\<lparr>tick_commands := tick_commands dp @ [command]\<rparr>"

section \<open>Event binding (\<open>EventMixin\<close>)\<close>

text \<open>
  \<open>hash_string_to_string\<close> (from \<open>utils\<close>) and the spelling of a function call are not among
  the source files and are parameters.
\<close>

record event_ext =
  hash_string_to_string :: "string \<Rightarrow> nat \<Rightarrow> string"
  function_call :: "string \<Rightarrow> string \<Rightarrow> string"

definition add_events :: "event_ext \<Rightarrow> string \<Rightarrow> string list \<Rightarrow> datapack \<Rightarrow> error + datapack" where
  "add_events ext criteria commands dp =
     (let criteria = replace ''minecraft.'' [] criteria;
          count = replace '':'' ''_'' (lower criteria) in
      case is_never_used ''on_event'' [criteria] dp of
        (True, dp1) \<Rightarrow>
          (let objective = ''on_event_'' @ hash_string_to_string ext criteria 7;
               dp2 = add_objective objective criteria dp1;
               (func_call, dp3) =
                  add_raw_private_function (function_call ext) ''on_event''
                    ((''scoreboard players set @s '' @ objective @ '' 0'') # commands) count dp2
           in Inr (add_tick_command
                     (''execute as @a[scores={'' @ objective @ ''=1..}] at @s run '' @ func_call)
                     dp3))
      | (False, dp1) \<Rightarrow>
          (case private_functions dp1 ''on_event'' of
             None \<Rightarrow> Inl (KeyError ''on_event'')
           | Some category \<Rightarrow>
               (case category count of
                  None \<Rightarrow> Inl (KeyError count)
                | Some func \<Rightarrow>
                    Inr (dp1\<lparr>private_functions :=
                           (private_functions dp1)(''on_event'' \<mapsto>
                              category(count \<mapsto> func @ commands))\<rparr>))))"

definition add_event :: "event_ext \<Rightarrow> string \<Rightarrow> string \<Rightarrow> datapack \<Rightarrow> error + datapack" where
  "add_event ext criteria command dp = add_events ext criteria [command] dp"

subsection \<open>A concrete compilation\<close>

definition empty_datapack :: datapack where
  "empty_datapack = \<lparr>functions_dp = [], jsons = [], objectives = {}, private_functions = Map.empty,
                      tick_commands = [], used_command = {}\<rparr>"

definition event_ext0 :: event_ext where
  "event_ext0 = \<lparr>hash_string_to_string = (\<lambda>s n. take n (rev s)),
                 function_call = (\<lambda>name count. ''function ns:__private__/'' @ name @ ''/'' @ count)\<rparr>"

section \<open>Files, paths and the certificate\<close>

text \<open>
  A path is its list of components; an absolute path starts with the component \<open>/\<close>.
  \<open>Path\<close> and \<open>path_join\<close> are \<open>pathlib\<close>'s constructor and its \<open>/\<close> operator: empty
  components and \<open>.\<close> are dropped, and joining an absolute path replaces the left operand.
  The components \<open>..\<close> and symbolic links are not interpreted. The file system maps a path
  to a directory or to a regular file with its content.
\<close>

type_synonym path = "string list"

datatype node = Dir | File string

type_synonym filesystem = "path \<rightharpoonup> node"

definition newline :: char where
  "newline = CHR 0x0A"

fun split :: "char \<Rightarrow> string \<Rightarrow> string list" where
  "split sep [] = [[]]"
| "split sep (c # cs) =
     (if c = sep then [] # split sep cs
      else (case split sep cs of [] \<Rightarrow> [[c]] | w # ws \<Rightarrow> (c # w) # ws))"

definition isspace :: "char \<Rightarrow> bool" where
  "isspace c = (c \<in> set [CHR 0x09, CHR 0x0A, CHR 0x0B, CHR 0x0C, CHR 0x0D, CHR 0x1C, CHR 0x1D,
                          CHR 0x1E, CHR 0x1F, CHR 0x20, CHR 0x85, CHR 0xA0])"

definition strip :: "string \<Rightarrow> string" where
  "strip s = rev (dropWhile isspace (rev (dropWhile isspace s)))"

definition Path :: "string \<Rightarrow> path" where
  "Path s = (if startswith s ''/'' then [''/''] else [])
            @ filter (\<lambda>c. c \<noteq> [] \<and> c \<noteq> ''.'') (split CHR ''/'' s)"

definition path_join :: "path \<Rightarrow> string \<Rightarrow> path" where
  "path_join p s = (if startswith s ''/'' then Path s else p @ Path s)"

definition parent :: "path \<Rightarrow> path" where
  "parent p = (if p = [''/''] then p else butlast p)"

definition as_posix :: "path \<Rightarrow> string" where
  "as_posix p = (case p of [] \<Rightarrow> ''.''
                 | c # cs \<Rightarrow> if c = ''/'' then ''/'' @ join ''/'' cs else join ''/'' p)"

fun ancestors :: "path \<Rightarrow> path list" where
  "ancestors [] = []"
| "ancestors (c # cs) = [] # map ((#) c) (ancestors cs)"

definition is_dir :: "filesystem \<Rightarrow> path \<Rightarrow> bool" where
  "is_dir fs p = (fs p = Some Dir)"

definition is_file :: "filesystem \<Rightarrow> path \<Rightarrow> bool" where
  "is_file fs p = (case fs p of Some (File c) \<Rightarrow> True | _ \<Rightarrow> False)"

text \<open>
  \<open>mkdir\<close> is \<open>Path.mkdir(parents=True, exist_ok=...)\<close>, the only way the source calls it:
  it fails when a component above the path is a regular file or when the path exists
  (unless it is a directory and \<open>exist_ok\<close> holds), and otherwise creates the path and
  every missing directory above it. \<open>write_file\<close> is \<open>open(path, 'w+')\<close> followed by a
  write: the directory above must exist and the path must not be a directory. \<open>rmtree\<close>
  removes a directory and all below it. Permissions and full disks are not modelled.
\<close>

definition mkdir :: "bool \<Rightarrow> path \<Rightarrow> filesystem \<Rightarrow> error + filesystem" where
  "mkdir exist_ok p fs =
     (if list_ex (is_file fs) (ancestors p) then Inl (OSError ''NotADirectoryError'')
      else case fs p of
             Some (File c) \<Rightarrow> Inl (OSError ''FileExistsError'')
           | Some Dir \<Rightarrow> if exist_ok then Inr fs else Inl (OSError ''FileExistsError'')
           | None \<Rightarrow>
               Inr (\<lambda>q. if (q = p \<or> q \<in> set (ancestors p)) \<and> fs q = None then Some Dir
                        else fs q))"

definition write_file :: "path \<Rightarrow> string \<Rightarrow> filesystem \<Rightarrow> error + filesystem" where
  "write_file p content fs =
     (if is_dir fs p then Inl (OSError ''IsADirectoryError'')
      else if \<not> is_dir fs (parent p) then Inl (OSError ''FileNotFoundError'')
      else Inr (fs(p \<mapsto> File content)))"

definition rmtree :: "path \<Rightarrow> filesystem \<Rightarrow> error + filesystem" where
  "rmtree p fs =
     (if is_dir fs p then Inr (\<lambda>q. if take (length p) q = p then None else fs q)
      else Inl (OSError ''NotADirectoryError''))"

subsection \<open>The state of a compilation\<close>

text \<open>
  The five class attributes of \<open>DataPack\<close> that hold the reserved names; the class itself is
  not among the source files, so their initial values are whatever the state holds.
\<close>

record reserved_names =
  LOAD_NAME :: string
  TICK_NAME :: string
  PRIVATE_NAME :: string
  VAR_NAME :: string
  INT_NAME :: string

datatype fs_event = EvRead path | EvRmtree path | EvMkdir path | EvWrite path

text \<open>
  What a compilation reads and writes: the file system, the reserved names, and the trace
  of the file-system effects that took place, oldest first. An operation that raises
  leaves the state as it was when it raised.
\<close>

record world =
  files :: filesystem
  names :: reserved_names
  trace :: "fs_event list"

definition w_mkdir :: "bool \<Rightarrow> path \<Rightarrow> world \<Rightarrow> (error + unit) \<times> world" where
  "w_mkdir exist_ok p w =
     (case mkdir exist_ok p (files w) of
        Inl e \<Rightarrow> (Inl e, w)
      | Inr fs' \<Rightarrow> (Inr (), w\<lparr>files := fs', trace := trace w @ [EvMkdir p]\<rparr>))"

definition w_write :: "path \<Rightarrow> string \<Rightarrow> world \<Rightarrow> (error + unit) \<times> world" where
  "w_write p content w =
     (case write_file p content (files w) of
        Inl e \<Rightarrow> (Inl e, w)
      | Inr fs' \<Rightarrow> (Inr (), w\<lparr>files := fs', trace := trace w @ [EvWrite p]\<rparr>))"

definition w_rmtree :: "path \<Rightarrow> world \<Rightarrow> (error + unit) \<times> world" where
  "w_rmtree p w =
     (case rmtree p (files w) of
        Inl e \<Rightarrow> (Inl e, w)
      | Inr fs' \<Rightarrow> (Inr (), w\<lparr>files := fs', trace := trace w @ [EvRmtree p]\<rparr>))"

record config =
  target :: string
  output_cfg :: string
  namespace :: string
  pack_format :: string
  description :: string

subsection \<open>The certificate (\<open>compile.py\<close>)\<close>

definition JMC_CERT_FILE_NAME :: string where
  "JMC_CERT_FILE_NAME = ''jmc.txt''"

definition cert_config_to_string :: "string pydict \<Rightarrow> string" where
  "cert_config_to_string cert_config =
     join [newline] (map (\<lambda>(key, value). key @ ''='' @ value) cert_config)"

text \<open>
  The loop of \<open>string_to_cert_config\<close>: a line that does not split at \<open>=\<close> into exactly two
  parts fails the tuple assignment with \<open>ValueError\<close>.
\<close>

fun cert_lines :: "string pydict \<Rightarrow> string list \<Rightarrow> error + string pydict" where
  "cert_lines cert_config [] = Inr cert_config"
| "cert_lines cert_config (line # rest) =
     (case split CHR ''='' line of
        [key, value] \<Rightarrow> cert_lines (AList.update (strip key) (strip value) cert_config) rest
      | _ \<Rightarrow> Inl ValueError)"

definition string_to_cert_config :: "string \<Rightarrow> error + string pydict" where
  "string_to_cert_config string = cert_lines [] (split newline string)"

definition get_cert :: "reserved_names \<Rightarrow> string pydict" where
  "get_cert n =
     [(''LOAD'', LOAD_NAME n), (''TICK'', TICK_NAME n), (''PRIVATE'', PRIVATE_NAME n),
      (''VAR'', VAR_NAME n), (''INT'', INT_NAME n)]"

definition dict_get :: "'v pydict \<Rightarrow> string \<Rightarrow> 'v \<Rightarrow> 'v" where
  "dict_get d key dflt = (case map_of d key of None \<Rightarrow> dflt | Some v \<Rightarrow> v)"

definition make_cert :: "string pydict \<Rightarrow> path \<Rightarrow> world \<Rightarrow> (error + unit) \<times> world" where
  "make_cert cert_config p w =
     (case w_mkdir False (parent p) w of
        (Inl e, w1) \<Rightarrow> (Inl e, w1)
      | (Inr u, w1) \<Rightarrow> w_write p (cert_config_to_string cert_config) w1)"

definition namespace_folder :: "config \<Rightarrow> path" where
  "namespace_folder config = path_join (path_join (Path (output_cfg config)) ''data'') (namespace config)"

definition cert_file :: "config \<Rightarrow> path" where
  "cert_file config = path_join (namespace_folder config) JMC_CERT_FILE_NAME"

definition cert_not_found :: string where
  "cert_not_found =
     JMC_CERT_FILE_NAME @ '' file not found in namespace folder.'' @ [newline]
     @ '' To prevent accidental overriding of your datapack please delete the namespace folder yourself.''"

text \<open>
  The five assignments of \<open>read_cert\<close>: each reserved name becomes the certificate's entry
  under its key, or stays what it was. The defaults \<open>old_cert_config["LOAD"]\<close> and so on
  read the dictionary \<open>get_cert()\<close> has just built, so they are the current names.
\<close>

definition adopt_names :: "string pydict \<Rightarrow> reserved_names \<Rightarrow> reserved_names" where
  "adopt_names cert_config old =
     \<lparr>LOAD_NAME = dict_get cert_config ''LOAD'' (LOAD_NAME old),
      TICK_NAME = dict_get cert_config ''TICK'' (TICK_NAME old),
      PRIVATE_NAME = dict_get cert_config ''PRIVATE'' (PRIVATE_NAME old),
      VAR_NAME = dict_get cert_config ''VAR'' (VAR_NAME old),
      INT_NAME = dict_get cert_config ''INT'' (INT_NAME old)\<rparr>"

text \<open>
  \<open>read_cert\<close>. A certificate that \<open>string_to_cert_config\<close> rejects (the only exception
  it raises is \<open>ValueError\<close>) counts as the empty dictionary.
\<close>

definition read_cert :: "config \<Rightarrow> world \<Rightarrow> (error + unit) \<times> world" where
  "read_cert config w =
     (let old_cert_config = get_cert (names w) in
      if is_dir (files w) (namespace_folder config) then
        (case files w (cert_file config) of
           Some (File cert_str) \<Rightarrow>
             (let w1 = w\<lparr>trace := trace w @ [EvRead (cert_file config)]\<rparr>;
                  cert_config = (case string_to_cert_config cert_str of
                                   Inl e \<Rightarrow> [] | Inr c \<Rightarrow> c);
                  w2 = w1\<lparr>names := adopt_names cert_config (names w1)\<rparr>;
                  cert_config' = get_cert (names w2)
              in case w_rmtree (namespace_folder config) w2 of
                   (Inl e, w3) \<Rightarrow> (Inl e, w3)
                 | (Inr u, w3) \<Rightarrow> make_cert cert_config' (cert_file config) w3)
         | _ \<Rightarrow> (Inl (JMCBuildError cert_not_found), w))
      else make_cert old_cert_config (cert_file config) w)"

section \<open>Building the output pack (\<open>compile.py\<close>)\<close>

text \<open>
  The collaborators of \<open>compile\<close> and \<open>build\<close> that are not among the source files are
  parameters: \<open>json.loads\<close> (\<open>None\<close> is \<open>JSONDecodeError\<close>), \<open>json.dump\<close> and \<open>json.dumps\<close>
  with \<open>indent=2\<close>, Python's \<open>int\<close> on a string (\<open>None\<close> is \<open>ValueError\<close>), the front end
  (\<open>read_header\<close> followed by \<open>Lexer(config)\<close>, which read the source files and the reserved
  names and yield the output model or raise) and \<open>datapack.build()\<close>. The front end is
  given the file system to read; it has no way to change it.
\<close>

record build_ext =
  json_loads :: "string \<Rightarrow> json option"
  json_dump :: "json \<Rightarrow> string"
  parse_int :: "string \<Rightarrow> int option"
  run_lexer :: "config \<Rightarrow> reserved_names \<Rightarrow> filesystem \<Rightarrow> error + datapack"
  datapack_build :: "reserved_names \<Rightarrow> datapack \<Rightarrow> error + datapack"

text \<open>
  Iterating a JSON value as the list comprehension of \<open>read_func_tag\<close> does: a list yields
  its elements, a string its characters, an object its keys; anything else is not
  iterable. Each element is then asked \<open>startswith\<close>, which only a string has.
\<close>

definition iter_json :: "json \<Rightarrow> error + json list" where
  "iter_json v =
     (case v of
        JArray xs \<Rightarrow> Inr xs
      | JString s \<Rightarrow> Inr (map (\<lambda>c. JString [c]) s)
      | JObject m \<Rightarrow> Inr (map (\<lambda>(k, x). JString k) m)
      | _ \<Rightarrow> Inl TypeError)"

fun filter_values :: "string \<Rightarrow> json list \<Rightarrow> error + json list" where
  "filter_values prefix [] = Inr []"
| "filter_values prefix (value # rest) =
     (case value of
        JString s \<Rightarrow>
          (case filter_values prefix rest of
             Inl e \<Rightarrow> Inl e
           | Inr vs \<Rightarrow> Inr (if \<not> startswith s prefix then value # vs else vs))
      | _ \<Rightarrow> Inl AttributeError)"

definition malformed_json :: "path \<Rightarrow> string" where
  "malformed_json p =
     ''MalformedJsonException: Cannot parse '' @ as_posix p @ ''. Deleting the file to reset.''"

definition values_not_found :: "path \<Rightarrow> string" where
  "values_not_found p =
     [CHR 0x22] @ ''values'' @ [CHR 0x22] @ '' key not found in '' @ as_posix p
     @ ''. Deleting the file to reset.''"

text \<open>
  \<open>read_func_tag\<close>. The result is the dictionary the file holds, with its \<open>values\<close>
  filtered; subscripting a parsed value that is not an object raises \<open>TypeError\<close>, which
  the source does not catch. The messages name the path as written (\<open>resolve\<close> would make
  it absolute).
\<close>

definition read_func_tag ::
  "build_ext \<Rightarrow> path \<Rightarrow> config \<Rightarrow> world \<Rightarrow> (error + json pydict) \<times> world" where
  "read_func_tag ext p config w =
     (case files w p of
        Some (File content) \<Rightarrow>
          (let w1 = w\<lparr>trace := trace w @ [EvRead p]\<rparr> in
           case json_loads ext content of
             None \<Rightarrow> (Inl (JMCBuildError (malformed_json p)), w1)
           | Some (JObject members) \<Rightarrow>
               (case map_of members ''values'' of
                  None \<Rightarrow> (Inl (JMCBuildError (values_not_found p)), w1)
                | Some v \<Rightarrow>
                    (case iter_json v of
                       Inl e \<Rightarrow> (Inl e, w1)
                     | Inr xs \<Rightarrow>
                         (case filter_values (namespace config @ '':'') xs of
                            Inl e \<Rightarrow> (Inl e, w1)
                          | Inr vs \<Rightarrow>
                              (Inr (AList.update ''values'' (JArray vs) members), w1))))
           | Some other \<Rightarrow> (Inl TypeError, w1))
      | _ \<Rightarrow> (Inr [(''values'', JArray [])], w))"

text \<open>\<open>json["values"].append(x)\<close> on a dictionary \<open>read_func_tag\<close> returned.\<close>

definition append_value :: "string \<Rightarrow> json pydict \<Rightarrow> error + json pydict" where
  "append_value x obj =
     (case map_of obj ''values'' of
        Some (JArray vs) \<Rightarrow> Inr (AList.update ''values'' (JArray (vs @ [JString x])) obj)
      | Some other \<Rightarrow> Inl AttributeError
      | None \<Rightarrow> Inl (KeyError ''values''))"

definition functions_tags_folder :: "config \<Rightarrow> path" where
  "functions_tags_folder config =
     path_join (path_join (path_join (path_join (Path (output_cfg config)) ''data'')
       ''minecraft'') ''tags'') ''functions''"

definition load_tag :: "config \<Rightarrow> path" where
  "load_tag config = path_join (functions_tags_folder config) ''load.json''"

definition tick_tag :: "config \<Rightarrow> path" where
  "tick_tag config = path_join (functions_tags_folder config) ''tick.json''"

text \<open>
  Modelled from the spec: the \<open>Function\<close> class is not among the source files. A function
  is its ordered command list; its content is the commands joined by newlines, and it is
  true when it has a command.
\<close>

definition function_content :: "string list \<Rightarrow> string" where
  "function_content commands = join [newline] commands"

definition has_tick :: "reserved_names \<Rightarrow> datapack \<Rightarrow> bool" where
  "has_tick n dp = (case map_of (functions_dp dp) (TICK_NAME n) of
                      None \<Rightarrow> False | Some func \<Rightarrow> func \<noteq> [])"

text \<open>
  The first half of \<open>build\<close>, after \<open>datapack.build()\<close>: the two tag files are read, then
  \<open>load.json\<close> is written, then \<open>tick.json\<close> if the output model has a tick function with
  commands.
\<close>

definition merge_tags :: "build_ext \<Rightarrow> datapack \<Rightarrow> config \<Rightarrow> world \<Rightarrow> (error + unit) \<times> world" where
  "merge_tags ext dp config w =
     (case w_mkdir True (functions_tags_folder config) w of
        (Inl e, w1) \<Rightarrow> (Inl e, w1)
      | (Inr u, w1) \<Rightarrow>
     (case read_func_tag ext (load_tag config) config w1 of
        (Inl e, w2) \<Rightarrow> (Inl e, w2)
      | (Inr load_json, w2) \<Rightarrow>
     (case read_func_tag ext (tick_tag config) config w2 of
        (Inl e, w3) \<Rightarrow> (Inl e, w3)
      | (Inr tick_json, w3) \<Rightarrow>
     (case append_value (namespace config @ '':'' @ LOAD_NAME (names w3)) load_json of
        Inl e \<Rightarrow> (Inl e, w3)
      | Inr load_json' \<Rightarrow>
     (case w_write (load_tag config) (json_dump ext (JObject load_json')) w3 of
        (Inl e, w4) \<Rightarrow> (Inl e, w4)
      | (Inr u', w4) \<Rightarrow>
     (if has_tick (names w4) dp then
        (case append_value (namespace config @ '':'' @ TICK_NAME (names w4)) tick_json of
           Inl e \<Rightarrow> (Inl e, w4)
         | Inr tick_json' \<Rightarrow>
             w_write (tick_tag config) (json_dump ext (JObject tick_json')) w4)
      else (Inr (), w4)))))))"

fun write_functions :: "path \<Rightarrow> string list pydict \<Rightarrow> world \<Rightarrow> (error + unit) \<times> world" where
  "write_functions ns [] w = (Inr (), w)"
| "write_functions ns ((func_path, func) # rest) w =
     (let p = path_join (path_join ns ''functions'') (func_path @ ''.mcfunction'');
          content = function_content func in
      if content \<noteq> [] then
        (case w_mkdir True (parent p) w of
           (Inl e, w1) \<Rightarrow> (Inl e, w1)
         | (Inr u, w1) \<Rightarrow>
             (case w_write p content w1 of
                (Inl e, w2) \<Rightarrow> (Inl e, w2)
              | (Inr u', w2) \<Rightarrow> write_functions ns rest w2))
      else write_functions ns rest w)"

text \<open>Python's truth value of a parsed JSON value.\<close>

fun json_truthy :: "json \<Rightarrow> bool" where
  "json_truthy JNull = False"
| "json_truthy (JBool b) = b"
| "json_truthy (JNumber n) = (n \<noteq> 0)"
| "json_truthy (JString s) = (s \<noteq> [])"
| "json_truthy (JArray xs) = (xs \<noteq> [])"
| "json_truthy (JObject m) = (m \<noteq> [])"

fun write_jsons :: "build_ext \<Rightarrow> path \<Rightarrow> json pydict \<Rightarrow> world \<Rightarrow> (error + unit) \<times> world" where
  "write_jsons ext ns [] w = (Inr (), w)"
| "write_jsons ext ns ((json_path, j) # rest) w =
     (let p = path_join ns (json_path @ ''.json'') in
      if json_truthy j then
        (case w_mkdir True (parent p) w of
           (Inl e, w1) \<Rightarrow> (Inl e, w1)
         | (Inr u, w1) \<Rightarrow>
             (case w_write p (json_dump ext j) w1 of
                (Inl e, w2) \<Rightarrow> (Inl e, w2)
              | (Inr u', w2) \<Rightarrow> write_jsons ext ns rest w2))
      else write_jsons ext ns rest w)"

text \<open>The second half of \<open>build\<close>: the function files, the JSON files, the pack manifest.\<close>

definition build_files :: "build_ext \<Rightarrow> datapack \<Rightarrow> config \<Rightarrow> world \<Rightarrow> (error + unit) \<times> world" where
  "build_files ext dp config w =
     (case write_functions (namespace_folder config) (functions_dp dp) w of
        (Inl e, w1) \<Rightarrow> (Inl e, w1)
      | (Inr u, w1) \<Rightarrow>
     (case write_jsons ext (namespace_folder config) (jsons dp) w1 of
        (Inl e, w2) \<Rightarrow> (Inl e, w2)
      | (Inr u', w2) \<Rightarrow>
     (case parse_int ext (pack_format config) of
        None \<Rightarrow> (Inl ValueError, w2)
      | Some n \<Rightarrow>
          w_write (path_join (Path (output_cfg config)) ''pack.mcmeta'')
            (json_dump ext
               (JObject [(''pack'', JObject [(''pack_format'', JNumber n),
                                             (''description'', JString (description config))])]))
            w2)))"

definition build :: "build_ext \<Rightarrow> datapack \<Rightarrow> config \<Rightarrow> world \<Rightarrow> (error + unit) \<times> world" where
  "build ext datapack config w =
     (case datapack_build ext (names w) datapack of
        Inl e \<Rightarrow> (Inl e, w)
      | Inr dp \<Rightarrow>
          (case merge_tags ext dp config w of
             (Inl e, w1) \<Rightarrow> (Inl e, w1)
           | (Inr u, w1) \<Rightarrow> build_files ext dp config w1))"

text \<open>
  \<open>compile\<close>: the certificate is read first, then the front end runs, then the output is
  built. Logging and \<open>Header.clear()\<close> touch nothing the model holds.
\<close>

definition compile :: "build_ext \<Rightarrow> config \<Rightarrow> world \<Rightarrow> (error + unit) \<times> world" where
  "compile ext config w =
     (case read_cert config w of
        (Inl e, w1) \<Rightarrow> (Inl e, w1)
      | (Inr u, w1) \<Rightarrow>
          (case run_lexer ext config (names w1) (files w1) of
             Inl e \<Rightarrow> (Inl e, w1)
           | Inr datapack \<Rightarrow> build ext datapack config w1))"

subsection \<open>What a compilation into a certified namespace leaves behind\<close>

text \<open>
  The file system after \<open>read_cert\<close> has run on a certified namespace: the namespace
  folder holds the certificate and nothing else, and every path outside it is untouched.
\<close>

definition certified_files :: "path \<Rightarrow> string \<Rightarrow> filesystem \<Rightarrow> filesystem" where
  "certified_files ns cert fs =
     (\<lambda>q. if q = ns @ [''jmc.txt''] then Some (File cert)
          else if q = ns then Some Dir
          else if take (length ns) q = ns then None
          else fs q)"

text \<open>
  The order of effects the specification asks for, as a predicate on a trace: once the
  certificate has been written, nothing else is written inside the namespace folder, so
  the regenerated contents come before the certificate.
\<close>

definition regenerates :: "path \<Rightarrow> path \<Rightarrow> fs_event \<Rightarrow> bool" where
  "regenerates ns cert e =
     (case e of EvWrite q \<Rightarrow> q \<noteq> cert \<and> take (length ns) q = ns | _ \<Rightarrow> False)"

definition certificate_written_last :: "path \<Rightarrow> path \<Rightarrow> fs_event list \<Rightarrow> bool" where
  "certificate_written_last ns cert tr =
     (\<not> list_ex (regenerates ns cert) (dropWhile (\<lambda>e. e \<noteq> EvWrite cert) tr))"

text \<open>
  The tag file a compilation finds, as the specification describes it: a missing file is
  an empty list of values; a file that parses to an object whose \<open>values\<close> is a list of
  strings gives that object and those strings. Anything else has no reading.
\<close>

fun strings_of :: "json list \<Rightarrow> string list option" where
  "strings_of [] = Some []"
| "strings_of (JString s # rest) = (case strings_of rest of None \<Rightarrow> None | Some ss \<Rightarrow> Some (s # ss))"
| "strings_of (other # rest) = None"

definition old_tag :: "build_ext \<Rightarrow> filesystem \<Rightarrow> path \<Rightarrow> (json pydict \<times> string list) option" where
  "old_tag ext fs p =
     (case fs p of
        None \<Rightarrow> Some ([(''values'', JArray [])], [])
      | Some Dir \<Rightarrow> None
      | Some (File content) \<Rightarrow>
          (case json_loads ext content of
             Some (JObject members) \<Rightarrow>
               (case map_of members ''values'' of
                  Some (JArray vs) \<Rightarrow>
                    (case strings_of vs of None \<Rightarrow> None | Some ss \<Rightarrow> Some (members, ss))
                | _ \<Rightarrow> None)
           | _ \<Rightarrow> None))"

text \<open>
  The merge the specification describes: the entries that do not begin with the
  namespace's prefix, in their order, then the compilation's own reference.
\<close>

definition merged_tag :: "string \<Rightarrow> json pydict \<Rightarrow> string list \<Rightarrow> string \<Rightarrow> json" where
  "merged_tag ns members old_values name =
     JObject (AList.update ''values''
       (JArray (map JString (filter (\<lambda>v. \<not> startswith v (ns @ '':'')) old_values
                             @ [ns @ '':'' @ name])))
       members)"

subsection \<open>A concrete output directory\<close>

definition cfg0 :: config where
  "cfg0 = \<lparr>target = ''main.jmc'', output_cfg = ''out'', namespace = ''ns'',
           pack_format = ''15'', description = ''demo''\<rparr>"

definition names0 :: reserved_names where
  "names0 = \<lparr>LOAD_NAME = ''__load__'', TICK_NAME = ''__tick__'', PRIVATE_NAME = ''__private__'',
             VAR_NAME = ''__variable__'', INT_NAME = ''__int__''\<rparr>"

text \<open>
  An output directory left by an earlier build: the two tag files, which also list
  functions of another namespace, and the namespace folder \<open>out/data/ns\<close> holding one
  function file and no certificate. Then the same directory with a certificate of the
  given content.
\<close>

definition files0 :: filesystem where
  "files0 = [[] \<mapsto> Dir, [''out''] \<mapsto> Dir, [''out'', ''data''] \<mapsto> Dir,
             [''out'', ''data'', ''minecraft''] \<mapsto> Dir,
             [''out'', ''data'', ''minecraft'', ''tags''] \<mapsto> Dir,
             [''out'', ''data'', ''minecraft'', ''tags'', ''functions''] \<mapsto> Dir,
             [''out'', ''data'', ''minecraft'', ''tags'', ''functions'', ''load.json'']
               \<mapsto> File ''values: other_ns:foo ns:old'',
             [''out'', ''data'', ''minecraft'', ''tags'', ''functions'', ''tick.json'']
               \<mapsto> File ''values: other_ns:bar ns:my_tick'',
             [''out'', ''data'', ''ns''] \<mapsto> Dir,
             [''out'', ''data'', ''ns'', ''functions''] \<mapsto> Dir,
             [''out'', ''data'', ''ns'', ''functions'', ''old.mcfunction''] \<mapsto> File ''say old'']"

definition world0 :: world where
  "world0 = \<lparr>files = files0, names = names0, trace = []\<rparr>"

definition certified_world :: "string \<Rightarrow> world" where
  "certified_world cert =
     \<lparr>files = files0([''out'', ''data'', ''ns'', ''jmc.txt''] \<mapsto> File cert),
      names = names0, trace = []\<rparr>"

definition names1 :: reserved_names where
  "names1 = \<lparr>LOAD_NAME = ''my_load'', TICK_NAME = ''my_tick'', PRIVATE_NAME = ''my_private'',
             VAR_NAME = ''my_var'', INT_NAME = ''my_int''\<rparr>"

definition cert0 :: string where
  "cert0 = cert_config_to_string (get_cert names1)"

text \<open>
  Concrete collaborators. Tag files are written as \<open>values:\<close> followed by the entries,
  each after a space; \<open>{}\<close> is the object without members; nothing else parses. The front
  end yields a load function and a main function, and a tick function when asked to.
\<close>

definition json_loads0 :: "string \<Rightarrow> json option" where
  "json_loads0 s =
     (if s = ''{}'' then Some (JObject [])
      else if startswith s ''values:''
      then Some (JObject [(''values'',
                  JArray (map JString (filter (\<lambda>v. v \<noteq> []) (split CHR '' '' (drop 7 s)))))])
      else None)"

definition json_dump0 :: "json \<Rightarrow> string" where
  "json_dump0 j =
     (case j of
        JObject m \<Rightarrow>
          (case map_of m ''values'' of
             Some (JArray vs) \<Rightarrow>
               ''values:'' @ concat (map (\<lambda>v. case v of JString s \<Rightarrow> '' '' @ s | _ \<Rightarrow> '' ?'') vs)
           | _ \<Rightarrow> ''{}'')
      | _ \<Rightarrow> ''?'')"

definition datapack0 :: "bool \<Rightarrow> reserved_names \<Rightarrow> datapack" where
  "datapack0 with_tick n =
     \<lparr>functions_dp = [(LOAD_NAME n, [''say loaded''])]
                      @ (if with_tick then [(TICK_NAME n, [''say tick''])] else [])
                      @ [(''main'', [''say main''])],
      jsons = [], objectives = {}, private_functions = Map.empty, tick_commands = [],
      used_command = {}\<rparr>"

definition build_ext0 :: "bool \<Rightarrow> build_ext" where
  "build_ext0 with_tick =
     \<lparr>json_loads = json_loads0, json_dump = json_dump0,
      parse_int = (\<lambda>s. if s = ''15'' then Some 15 else None),
      run_lexer = (\<lambda>config n fs. Inr (datapack0 with_tick n)),
      datapack_build = (\<lambda>n dp. Inr dp)\<rparr>"

text \<open>The state \<open>read_cert\<close> leaves when it runs on that directory certified with \<open>cert0\<close>.\<close>

definition W1 :: world where
  "W1 = \<lparr>files = certified_files [''out'', ''data'', ''ns''] cert0 files0, names = names1,
         trace = [EvRead [''out'', ''data'', ''ns'', ''jmc.txt''], EvRmtree [''out'', ''data'', ''ns''],
                EvMkdir [''out'', ''data'', ''ns''], EvWrite [''out'', ''data'', ''ns'', ''jmc.txt'']]\<rparr>"

section \<open>Properties of item construction\<close>

lemma dict_contains_update:
  "dict_contains x (AList.update k v d) = (x = k \<or> dict_contains x d)"
  by (auto simp: dict_contains_def dom_update image_iff)

text \<open>
  With distinct override keys, the override loop stops at the first override whose key the
  dictionary already holds: the keys stored on the way are other keys of the override.
\<close>

lemma modify_loop_first_collision:
  "distinct (map fst m) \<Longrightarrow> find (\<lambda>p. dict_contains (fst p) d) m = Some (key, value_token) \<Longrightarrow>
   modify_loop error_token d m =
     Inl (JMCValueError (key @ '' is already inside the nbt'')
            (case error_token of None \<Rightarrow> value_token | Some t \<Rightarrow> t))"
proof (induction m arbitrary: d)
  case Nil
  then show ?case by simp
next
  case (Cons p rest)
  obtain k v where p: "p = (k, v)" by (cases p)
  show ?case
  proof (cases "dict_contains k d")
    case True
    with Cons.prems p show ?thesis by simp
  next
    case False
    from Cons.prems p have notin: "k \<notin> fst ` set rest" and dist: "distinct (map fst rest)"
      by auto
    have "find (\<lambda>q. dict_contains (fst q) (AList.update k v d)) rest
          = find (\<lambda>q. dict_contains (fst q) d) rest"
      using notin by (intro find_cong) (auto simp: dict_contains_update)
    also have "\<dots> = Some (key, value_token)" using Cons.prems False p by simp
    finally have "modify_loop error_token (AList.update k v d) rest =
       Inl (JMCValueError (key @ '' is already inside the nbt'')
            (case error_token of None \<Rightarrow> value_token | Some t \<Rightarrow> t))"
      using Cons.IH dist by blast
    with False p show ?thesis by simp
  qed
qed

text \<open>
  Once \<open>final_nbt\<close> is bound, the last loop copies every entry but those under
  \<open>custom_name\<close> and \<open>lore\<close>, in order.
\<close>

lemma final_loop_filter:
  "distinct (map fst d) \<Longrightarrow> fst ` set acc \<inter> fst ` set d = {} \<Longrightarrow>
   final_loop (Some acc) d =
     Inr (Some (acc @ filter (\<lambda>p. fst p \<notin> set [''custom_name'', ''lore'']) d))"
proof (induction d arbitrary: acc)
  case Nil
  then show ?case by simp
next
  case (Cons p rest)
  obtain k v where p: "p = (k, v)" by (cases p)
  from Cons.prems p have knew: "k \<notin> fst ` set acc" by auto
  then have upd: "AList.update k v acc = acc @ [(k, v)]"
    by (induction acc) auto
  from Cons.prems p have dist: "distinct (map fst rest)" and
     disj: "fst ` set (acc @ [(k, v)]) \<inter> fst ` set rest = {}" by auto
  show ?case
  proof (cases "k \<notin> set [''custom_name'', ''lore'']")
    case True
    then show ?thesis using Cons.IH[OF dist disj] p upd by simp
  next
    case False
    from Cons.prems p have "fst ` set acc \<inter> fst ` set rest = {}" by auto
    then show ?thesis using Cons.IH[OF dist, of acc] p False by simp
  qed
qed

text \<open>With no bracket component the local \<open>final_nbt\<close> is never bound and no item is built.\<close>

lemma finish_item_no_components: "finish_item ext ty [] d \<noteq> Inr it"
proof -
  have "final_loop None d = Inl (UnboundLocalError ''final_nbt'') \<or> final_loop None d = Inr None"
    by (induction d) auto
  then show ?thesis by (auto simp: finish_item_def)
qed

lemma create_item_no_name_no_lore_never_returns:
  assumes "args self display_name_param = Some []" and "args self lore_param = Some []"
  shows "create_item ext self item_type_param display_name_param lore_param nbt_param modify_nbt
         \<noteq> Inr it"
  using assms finish_item_no_components
  by (auto simp: create_item_def lore_step_def name_step_def dict_getitem_def Let_def
      split: sum.splits option.splits)

text \<open>
  Claim C4. \<open>create_item\<close> is meant to return an item whenever the item type is valid,
  display name, lore and raw NBT each being optional. The code does not: with the display
  name and the lore both empty, a call on the item type \<open>stick\<close> raises
  \<open>UnboundLocalError\<close> for the local \<open>final_nbt\<close>, with no raw NBT and with the raw NBT
  \<open>{Damage:1}\<close> alike, although every collaborator succeeds.
\<close>

theorem create_item_without_name_and_lore_raises:
  "create_item_default ext0 (self0 ''stick'' [] [] []) None
     = Inl (UnboundLocalError ''final_nbt'')
   \<and> create_item_default ext0 (self0 ''stick'' [] [] ''{Damage:1}'') None
     = Inl (UnboundLocalError ''final_nbt'')"
  by (simp add: create_item_default_def create_item_def ext0_def self0_def tok0_def
      dict_getitem_def lore_step_def nbt_step_def name_step_def finish_item_def startswith_def
      dict_contains_def)

text \<open>
  Claim C8. Built from the type \<open>minecraft:stick\<close> and the display name \<open>Excalibur\<close>
  with no lore and no raw NBT, the item string is \<open>stick[custom_name=\<close>, the formatted
  name and \<open>]\<close>, where the formatter returns a non-empty text. With a non-empty display name
  and a raw NBT object that also defines \<open>custom_name\<close>, no error is raised: the stored
  structured NBT is the raw object without its \<open>custom_name\<close> and \<open>lore\<close> entries.
\<close>

theorem create_item_excalibur:
  assumes name: "format_text ext self ''displayName'' = Inr name_text" "name_text \<noteq> []"
    and ty: "args self ''itemType'' = Some ''minecraft:stick''"
    and lore: "args self ''lore'' = Some []"
  shows "(args self ''displayName'' = Some ''Excalibur'' \<and> args self ''nbt'' = Some []
            \<and> token_dict_to_raw_js_object ext [] = Inr raw \<longrightarrow>
          create_item_default ext self None =
            Inr \<lparr>item_type = ''stick[custom_name='' @ name_text @ '']'', nbt_js = raw,
                 raw_nbt = []\<rparr>)
       \<and> (args self ''displayName'' = Some display_name \<and> display_name \<noteq> []
            \<and> args self ''nbt'' = Some nbt_arg \<and> nbt_arg \<noteq> []
            \<and> raw_args self ''nbt'' = Some nbt_token \<and> parse_js_obj ext nbt_token = Inr d
            \<and> distinct (map fst d) \<and> dict_contains ''custom_name'' d
            \<and> token_dict_to_raw_js_object ext
                 (filter (\<lambda>p. fst p \<notin> set [''custom_name'', ''lore'']) d) = Inr raw' \<longrightarrow>
          create_item_default ext self None =
            Inr \<lparr>item_type = ''stick[custom_name='' @ name_text @ '']'', nbt_js = raw',
                 raw_nbt = filter (\<lambda>p. fst p \<notin> set [''custom_name'', ''lore'']) d\<rparr>)"
proof (intro conjI impI)
  assume a: "args self ''displayName'' = Some ''Excalibur'' \<and> args self ''nbt'' = Some []
            \<and> token_dict_to_raw_js_object ext [] = Inr raw"
  show "create_item_default ext self None =
            Inr \<lparr>item_type = ''stick[custom_name='' @ name_text @ '']'', nbt_js = raw,
                 raw_nbt = []\<rparr>"
    using a name ty lore
    by (simp add: create_item_default_def create_item_def dict_getitem_def lore_step_def
        nbt_step_def name_step_def finish_item_def startswith_def)
next
  assume a: "args self ''displayName'' = Some display_name \<and> display_name \<noteq> []
            \<and> args self ''nbt'' = Some nbt_arg \<and> nbt_arg \<noteq> []
            \<and> raw_args self ''nbt'' = Some nbt_token \<and> parse_js_obj ext nbt_token = Inr d
            \<and> distinct (map fst d) \<and> dict_contains ''custom_name'' d
            \<and> token_dict_to_raw_js_object ext
                 (filter (\<lambda>p. fst p \<notin> set [''custom_name'', ''lore'']) d) = Inr raw'"
  then have "final_loop (Some []) d =
     Inr (Some ([] @ filter (\<lambda>p. fst p \<notin> set [''custom_name'', ''lore'']) d))"
    by (intro final_loop_filter) auto
  moreover from a have "d \<noteq> []" by (auto simp: dict_contains_def)
  ultimately show "create_item_default ext self None =
            Inr \<lparr>item_type = ''stick[custom_name='' @ name_text @ '']'', nbt_js = raw',
                 raw_nbt = filter (\<lambda>p. fst p \<notin> set [''custom_name'', ''lore'']) d\<rparr>"
    using a name ty lore
    by (simp add: create_item_default_def create_item_def dict_getitem_def lore_step_def
        nbt_step_def name_step_def finish_item_def startswith_def)
qed

theorem create_item_excalibur_witness:
  "create_item_default ext1 (self0 ''minecraft:stick'' ''Excalibur'' [] []) None =
     Inr \<lparr>item_type = ''stick[custom_name=<Excalibur>]'', nbt_js = ''{}'', raw_nbt = []\<rparr>
   \<and> create_item_default ext1
        (self0 ''minecraft:stick'' ''Excalibur'' [] ''{custom_name:x,Damage:1}'') None =
     Inr \<lparr>item_type = ''stick[custom_name=<Excalibur>]'', nbt_js = ''{Damage}'',
          raw_nbt = [(''Damage'', tok0 ''{custom_name:x,Damage:1}'')]\<rparr>"
  using create_item_excalibur[where ext = ext1
             and self = "self0 ''minecraft:stick'' ''Excalibur'' [] []"
             and name_text = "''<Excalibur>''" and raw = "''{}''"]
        create_item_excalibur[where ext = ext1
             and self = "self0 ''minecraft:stick'' ''Excalibur'' [] ''{custom_name:x,Damage:1}''"
             and name_text = "''<Excalibur>''" and display_name = "''Excalibur''"
             and nbt_arg = "''{custom_name:x,Damage:1}''"
             and nbt_token = "tok0 ''{custom_name:x,Damage:1}''"
             and d = "[(''custom_name'', tok0 ''{custom_name:x,Damage:1}''),
                       (''Damage'', tok0 ''{custom_name:x,Damage:1}'')]"
             and raw' = "''{Damage}''"]
  by (simp add: ext1_def ext0_def self0_def dict_contains_def tok0_def)

text \<open>
  Claim C9. When an override key already exists in the NBT being overlaid, both
  constructions raise the value error \<open><key> is already inside the nbt\<close> and return no
  item. The key reported is the first override, in the order of the override dictionary,
  whose key the NBT holds. \<open>create_new_item\<close> reports it at the override's own token, or at
  \<open>error_token\<close> when the caller gives one; \<open>create_item\<close>, once the item type, the lore
  and the raw NBT have been read without error, reports it at the override's own token.
\<close>

theorem override_of_existing_key_raises:
  assumes "distinct (map fst m)"
    and "find (\<lambda>p. dict_contains (fst p) d) m = Some (key, value_token)"
  shows "(raw_nbt it = d \<longrightarrow>
            create_new_item ext it (Some m) error_token =
              Inl (JMCValueError (key @ '' is already inside the nbt'')
                     (case error_token of None \<Rightarrow> value_token | Some t \<Rightarrow> t)))
       \<and> (args self item_type_param = Some ty \<and> lore_step ext self lore_param = Inr lore_json
            \<and> nbt_step ext self nbt_param = Inr d \<longrightarrow>
            create_item ext self item_type_param display_name_param lore_param nbt_param (Some m) =
              Inl (JMCValueError (key @ '' is already inside the nbt'') value_token))"
  using modify_loop_first_collision[OF assms, of None]
        modify_loop_first_collision[OF assms, of error_token]
  by (simp add: create_new_item_def create_item_def dict_getitem_def)

theorem override_of_existing_key_raises_witness:
  "create_new_item ext0
      \<lparr>item_type = ''stick'', nbt_js = ''{Damage}'', raw_nbt = [(''Damage'', tok0 ''1'')]\<rparr>
      (Some [(''Unbreakable'', tok0 ''2''), (''Damage'', tok0 ''3'')]) None =
     Inl (JMCValueError ''Damage is already inside the nbt'' (tok0 ''3''))
   \<and> create_item ext1 (self0 ''stick'' ''Excalibur'' [] ''{custom_name:x,Damage:1}'')
        ''itemType'' ''displayName'' ''lore'' ''nbt''
        (Some [(''Unbreakable'', tok0 ''2''), (''Damage'', tok0 ''3'')]) =
     Inl (JMCValueError ''Damage is already inside the nbt'' (tok0 ''3''))"
  using override_of_existing_key_raises[where
             m = "[(''Unbreakable'', tok0 ''2''), (''Damage'', tok0 ''3'')]"
             and d = "[(''Damage'', tok0 ''1'')]" and key = "''Damage''"
             and value_token = "tok0 ''3''"
             and it = "\<lparr>item_type = ''stick'', nbt_js = ''{Damage}'',
                        raw_nbt = [(''Damage'', tok0 ''1'')]\<rparr>"
             and ext = ext0 and error_token = None]
        override_of_existing_key_raises[where
             m = "[(''Unbreakable'', tok0 ''2''), (''Damage'', tok0 ''3'')]"
             and d = "[(''custom_name'', tok0 ''{custom_name:x,Damage:1}''),
                       (''Damage'', tok0 ''{custom_name:x,Damage:1}'')]"
             and key = "''Damage''" and value_token = "tok0 ''3''"
             and self = "self0 ''stick'' ''Excalibur'' [] ''{custom_name:x,Damage:1}''"
             and item_type_param = "''itemType''" and ty = "''stick''" and ext = ext1
             and lore_param = "''lore''" and lore_json = "[]" and nbt_param = "''nbt''"
             and display_name_param = "''displayName''"]
  by (simp add: ext1_def ext0_def self0_def dict_contains_def lore_step_def nbt_step_def
      dict_getitem_def tok0_def)

section \<open>Properties of event binding\<close>

text \<open>
  The two branches of \<open>add_events\<close>: a criterion not yet bound in this compilation, and a
  criterion already bound whose private function is registered.
\<close>

lemma add_events_first:
  assumes "(''on_event'', [replace ''minecraft.'' [] criteria]) \<notin> used_command dp"
  shows "add_events ext criteria commands dp =
     (let crit = replace ''minecraft.'' [] criteria;
          count = replace '':'' ''_'' (lower crit);
          objective = ''on_event_'' @ hash_string_to_string ext crit 7;
          category = (case private_functions dp ''on_event'' of None \<Rightarrow> Map.empty | Some c \<Rightarrow> c)
      in Inr (dp\<lparr>objectives := insert (objective, crit) (objectives dp),
                  private_functions := (private_functions dp)(''on_event'' \<mapsto>
                     category(count \<mapsto> (''scoreboard players set @s '' @ objective @ '' 0'') # commands)),
                  tick_commands := tick_commands dp @
                     [''execute as @a[scores={'' @ objective @ ''=1..}] at @s run ''
                        @ function_call ext ''on_event'' count],
                  used_command := insert (''on_event'', [crit]) (used_command dp)\<rparr>))"
  using assms
  by (simp add: add_events_def is_never_used_def add_objective_def add_raw_private_function_def
      add_tick_command_def Let_def)


lemma add_events_again:
  assumes "(''on_event'', [replace ''minecraft.'' [] criteria]) \<in> used_command dp"
    and "private_functions dp ''on_event'' = Some category"
    and "category (replace '':'' ''_'' (lower (replace ''minecraft.'' [] criteria))) = Some func"
  shows "add_events ext criteria commands dp =
     Inr (dp\<lparr>private_functions := (private_functions dp)(''on_event'' \<mapsto>
             category(replace '':'' ''_'' (lower (replace ''minecraft.'' [] criteria)) \<mapsto> func @ commands))\<rparr>)"
  using assms
  by (simp add: add_events_def is_never_used_def Let_def)


text \<open>The criteria of the spec's example, evaluated.\<close>

lemma replace_fish_prefixed: "replace ''minecraft.'' [] ''minecraft.fish_caught'' = ''fish_caught''"
  by (simp add: startswith_def)

lemma replace_fish_plain: "replace ''minecraft.'' [] ''fish_caught'' = ''fish_caught''"
  by (simp add: startswith_def)

lemma count_fish: "replace '':'' ''_'' (lower ''fish_caught'') = ''fish_caught''"
  by code_simp


text \<open>
  Claim C7. The first binding of a normalized criterion registers an objective tracking the
  criterion, registers under the key \<open>count\<close> a private function of category \<open>on_event\<close>
  whose body is the reset of the triggering actor's score to zero followed by the given
  commands in order, and appends one per-tick dispatch command, which runs the call of that
  function as every actor whose score in the objective is in the range \<open>1..\<close>.
\<close>

theorem first_binding_registers_objective_function_dispatch:
  assumes "(''on_event'', [replace ''minecraft.'' [] criteria]) \<notin> used_command dp"
  shows "\<exists>dp'. add_events ext criteria commands dp = Inr dp'
     \<and> (let crit = replace ''minecraft.'' [] criteria;
             count = replace '':'' ''_'' (lower crit);
             objective = ''on_event_'' @ hash_string_to_string ext crit 7;
             category = (case private_functions dp ''on_event'' of None \<Rightarrow> Map.empty | Some c \<Rightarrow> c)
         in objectives dp' = insert (objective, crit) (objectives dp)
          \<and> private_functions dp' = (private_functions dp)(''on_event'' \<mapsto>
               category(count \<mapsto> (''scoreboard players set @s '' @ objective @ '' 0'') # commands))
          \<and> tick_commands dp' = tick_commands dp @
               [''execute as @a[scores={'' @ objective @ ''=1..}] at @s run ''
                  @ function_call ext ''on_event'' count])"
  using add_events_first[OF assms, of ext commands] by (simp add: Let_def)


theorem first_binding_registers_objective_function_dispatch_witness:
  "\<exists>dp'. add_events event_ext0 ''minecraft.fish_caught'' [''say caught''] empty_datapack = Inr dp'
     \<and> objectives dp' = {(''on_event_thguac_'', ''fish_caught'')}
     \<and> private_functions dp' = [''on_event'' \<mapsto>
           [''fish_caught'' \<mapsto> [''scoreboard players set @s on_event_thguac_ 0'', ''say caught'']]]
     \<and> tick_commands dp' =
           [''execute as @a[scores={on_event_thguac_=1..}] at @s run function ns:__private__/on_event/fish_caught'']"
  using first_binding_registers_objective_function_dispatch[of "''minecraft.fish_caught''" empty_datapack event_ext0 "[''say caught'']"]
  by (simp del: replace.simps add: Let_def replace_fish_prefixed count_fish empty_datapack_def
      event_ext0_def)


text \<open>
  Claim C3. Two bindings whose criteria are equal once the vendor prefix is stripped, the
  first being new in the compilation: both succeed, and together they add one objective,
  one private function of category \<open>on_event\<close>, whose body is the score reset followed by
  the first and then the second command list, and one per-tick dispatch command. From the
  empty output model, the criteria \<open>minecraft.fish_caught\<close> and \<open>fish_caught\<close> leave
  exactly one of each.
\<close>

theorem equal_criteria_share_one_function:
  assumes same: "replace ''minecraft.'' [] criteria1 = replace ''minecraft.'' [] criteria2"
    and first: "(''on_event'', [replace ''minecraft.'' [] criteria1]) \<notin> used_command dp"
  shows "\<exists>dp1 dp2. add_events ext criteria1 commands1 dp = Inr dp1
     \<and> add_events ext criteria2 commands2 dp1 = Inr dp2
     \<and> (let crit = replace ''minecraft.'' [] criteria1;
             count = replace '':'' ''_'' (lower crit);
             objective = ''on_event_'' @ hash_string_to_string ext crit 7;
             category = (case private_functions dp ''on_event'' of None \<Rightarrow> Map.empty | Some c \<Rightarrow> c)
         in objectives dp2 = insert (objective, crit) (objectives dp)
          \<and> private_functions dp2 = (private_functions dp)(''on_event'' \<mapsto>
               category(count \<mapsto>
                 (''scoreboard players set @s '' @ objective @ '' 0'') # commands1 @ commands2))
          \<and> tick_commands dp2 = tick_commands dp @
               [''execute as @a[scores={'' @ objective @ ''=1..}] at @s run ''
                  @ function_call ext ''on_event'' count])"
proof -
  let ?crit = "replace ''minecraft.'' [] criteria1"
  let ?count = "replace '':'' ''_'' (lower ?crit)"
  let ?objective = "''on_event_'' @ hash_string_to_string ext ?crit 7"
  let ?category = "case private_functions dp ''on_event'' of None \<Rightarrow> Map.empty | Some c \<Rightarrow> c"
  let ?body = "(''scoreboard players set @s '' @ ?objective @ '' 0'') # commands1"
  let ?dp1 = "dp\<lparr>objectives := insert (?objective, ?crit) (objectives dp),
                  private_functions := (private_functions dp)(''on_event'' \<mapsto>
                     ?category(?count \<mapsto> ?body)),
                  tick_commands := tick_commands dp @
                     [''execute as @a[scores={'' @ ?objective @ ''=1..}] at @s run ''
                        @ function_call ext ''on_event'' ?count],
                  used_command := insert (''on_event'', [?crit]) (used_command dp)\<rparr>"
  have one: "add_events ext criteria1 commands1 dp = Inr ?dp1"
    using add_events_first[OF first, of ext commands1] by (simp add: Let_def)
  have used: "(''on_event'', [replace ''minecraft.'' [] criteria2]) \<in> used_command ?dp1"
    using same by simp
  have cat: "private_functions ?dp1 ''on_event'' = Some (?category(?count \<mapsto> ?body))"
    by simp
  have fn: "(?category(?count \<mapsto> ?body))
              (replace '':'' ''_'' (lower (replace ''minecraft.'' [] criteria2))) = Some ?body"
    using same by simp
  have two: "add_events ext criteria2 commands2 ?dp1 =
     Inr (?dp1\<lparr>private_functions := (private_functions ?dp1)(''on_event'' \<mapsto>
             (?category(?count \<mapsto> ?body))
               (replace '':'' ''_'' (lower (replace ''minecraft.'' [] criteria2)) \<mapsto> ?body @ commands2))\<rparr>)"
    by (rule add_events_again[OF used cat fn])
  show ?thesis
    apply (rule exI[of _ ?dp1])
    apply (rule exI)
    apply (intro conjI)
      apply (rule one)
     apply (rule two)
    using same apply (simp add: Let_def)
    done
qed


theorem equal_criteria_share_one_function_witness:
  "\<exists>dp1 dp2. add_events event_ext0 ''minecraft.fish_caught'' [''say first''] empty_datapack = Inr dp1
     \<and> add_events event_ext0 ''fish_caught'' [''say second''] dp1 = Inr dp2
     \<and> objectives dp2 = {(''on_event_thguac_'', ''fish_caught'')}
     \<and> private_functions dp2 = [''on_event'' \<mapsto>
           [''fish_caught'' \<mapsto>
              [''scoreboard players set @s on_event_thguac_ 0'', ''say first'', ''say second'']]]
     \<and> tick_commands dp2 =
           [''execute as @a[scores={on_event_thguac_=1..}] at @s run function ns:__private__/on_event/fish_caught'']"
  using equal_criteria_share_one_function[of "''minecraft.fish_caught''" "''fish_caught''" empty_datapack event_ext0
              "[''say first'']" "[''say second'']"]
  by (simp del: replace.simps add: Let_def replace_fish_prefixed replace_fish_plain count_fish
      empty_datapack_def event_ext0_def)


section \<open>Properties of the certificate protocol\<close>

subsection \<open>Paths\<close>

lemma Path_jmc: "Path JMC_CERT_FILE_NAME = [''jmc.txt'']"
  by (simp add: Path_def JMC_CERT_FILE_NAME_def startswith_def)

lemma cert_file_eq: "cert_file config = namespace_folder config @ [''jmc.txt'']"
  by (simp add: cert_file_def path_join_def Path_jmc) (simp add: JMC_CERT_FILE_NAME_def startswith_def)

lemma parent_snoc: "parent (p @ [''jmc.txt'']) = p"
  by (simp add: parent_def)

lemma in_ancestors: "q \<in> set (ancestors p) \<longleftrightarrow> length q < length p \<and> take (length q) p = q"
proof (induction p arbitrary: q)
  case Nil
  then show ?case by simp
next
  case (Cons c cs)
  show ?case
  proof (cases q)
    case Nil
    then show ?thesis by simp
  next
    case (Cons d ds)
    then show ?thesis using Cons.IH[of ds] by auto
  qed
qed

lemma ancestor_not_under: "q \<in> set (ancestors p) \<Longrightarrow> take (length p) q \<noteq> p"
  by (auto simp: in_ancestors)


subsection \<open>The two outcomes of \<open>read_cert\<close> on an existing namespace folder\<close>

lemma read_cert_without_certificate:
  assumes "is_dir (files w) (namespace_folder config)"
    and "\<not> is_file (files w) (cert_file config)"
  shows "read_cert config w = (Inl (JMCBuildError cert_not_found), w)"
  using assms
  by (auto simp: read_cert_def is_file_def split: option.splits node.splits)

lemma read_cert_certified:
  assumes dir: "is_dir (files w) (namespace_folder config)"
    and cert: "files w (cert_file config) = Some (File cert_str)"
    and anc: "list_all (is_dir (files w)) (ancestors (namespace_folder config))"
  shows "read_cert config w =
     (Inr (),
      w\<lparr>files := certified_files (namespace_folder config)
                   (cert_config_to_string (get_cert (adopt_names
                      (case string_to_cert_config cert_str of Inl e \<Rightarrow> [] | Inr c \<Rightarrow> c) (names w))))
                   (files w),
        names := adopt_names (case string_to_cert_config cert_str of Inl e \<Rightarrow> [] | Inr c \<Rightarrow> c)
                   (names w),
        trace := trace w @ [EvRead (cert_file config), EvRmtree (namespace_folder config),
                            EvMkdir (namespace_folder config), EvWrite (cert_file config)]\<rparr>)"
proof -
  let ?ns = "namespace_folder config"
  let ?fs1 = "\<lambda>q. if take (length ?ns) q = ?ns then None else files w q"
  have rm: "rmtree ?ns (files w) = Inr ?fs1"
    using dir by (simp add: rmtree_def)
  have anc1: "\<And>a. a \<in> set (ancestors ?ns) \<Longrightarrow> ?fs1 a = Some Dir"
    using anc by (auto simp: list_all_iff is_dir_def dest: ancestor_not_under)
  have nofile: "\<not> list_ex (is_file ?fs1) (ancestors ?ns)"
    using anc1 by (auto simp: list_ex_iff is_file_def)
  let ?fs2 = "\<lambda>q. if (q = ?ns \<or> q \<in> set (ancestors ?ns)) \<and> ?fs1 q = None then Some Dir else ?fs1 q"
  have mk: "mkdir False ?ns ?fs1 = Inr ?fs2"
    using nofile by (simp add: mkdir_def)
  have fs2: "?fs2 = (\<lambda>q. if q = ?ns then Some Dir else ?fs1 q)"
  proof
    fix q
    show "?fs2 q = (if q = ?ns then Some Dir else ?fs1 q)"
    proof (cases "q \<in> set (ancestors ?ns)")
      case True
      then have "?fs1 q = Some Dir" by (rule anc1)
      moreover from True have "q \<noteq> ?ns" by (auto simp: in_ancestors)
      ultimately show ?thesis by simp
    next
      case False
      then show ?thesis by simp
    qed
  qed
  let ?fs3 = "\<lambda>q. if q = ?ns then Some Dir else ?fs1 q"
  have mk': "mkdir False ?ns ?fs1 = Inr ?fs3"
    using mk fs2 by simp
  have wr: "write_file (?ns @ [''jmc.txt'']) c ?fs3 = Inr (?fs3(?ns @ [''jmc.txt''] \<mapsto> File c))" for c
    by (simp add: write_file_def is_dir_def parent_snoc)
  have final: "(?fs3(?ns @ [''jmc.txt''] \<mapsto> File c)) = certified_files ?ns c (files w)" for c
    by (auto simp: fun_eq_iff certified_files_def)
  show ?thesis
    using dir cert rm mk' wr final
    by (simp add: read_cert_def Let_def w_rmtree_def make_cert_def w_mkdir_def w_write_def
        cert_file_eq parent_snoc del: fun_upd_apply)
qed

subsection \<open>The concrete output directory, evaluated\<close>

lemma ns0: "namespace_folder cfg0 = [''out'', ''data'', ''ns'']"
  by (simp add: namespace_folder_def path_join_def Path_def startswith_def cfg0_def)

lemma cert_path0: "cert_file cfg0 = [''out'', ''data'', ''ns'', ''jmc.txt'']"
  by (simp add: cert_file_eq ns0)

lemma tags0: "functions_tags_folder cfg0 = [''out'', ''data'', ''minecraft'', ''tags'', ''functions'']"
  by (simp add: functions_tags_folder_def path_join_def Path_def startswith_def cfg0_def)

lemma load_tag0: "load_tag cfg0 = [''out'', ''data'', ''minecraft'', ''tags'', ''functions'', ''load.json'']"
  by (simp add: load_tag_def tags0 path_join_def Path_def startswith_def)

lemma tick_tag0: "tick_tag cfg0 = [''out'', ''data'', ''minecraft'', ''tags'', ''functions'', ''tick.json'']"
  by (simp add: tick_tag_def tags0 path_join_def Path_def startswith_def)

lemma cert0_parse: "string_to_cert_config cert0 = Inr
     [(''LOAD'', ''my_load''), (''TICK'', ''my_tick''), (''PRIVATE'', ''my_private''),
      (''VAR'', ''my_var''), (''INT'', ''my_int'')]"
  by (simp add: string_to_cert_config_def cert0_def cert_config_to_string_def newline_def
      strip_def isspace_def get_cert_def names1_def)

lemma garbage_parse: "string_to_cert_config ''LOAD=a=b'' = Inl ValueError"
  by (simp add: string_to_cert_config_def newline_def)

lemma cert_lines_malformed:
  "list_ex (\<lambda>line. length (split CHR ''='' line) \<noteq> 2) ls \<Longrightarrow> cert_lines acc ls = Inl ValueError"
proof (induction ls arbitrary: acc)
  case Nil
  then show ?case by simp
next
  case (Cons l ls)
  show ?case
  proof (cases "length (split CHR ''='' l) = 2")
    case True
    then obtain k v where kv: "split CHR ''='' l = [k, v]"
      by (cases "split CHR ''='' l" rule: list.exhaust) (auto simp: length_Suc_conv)
    with Cons show ?thesis by simp
  next
    case False
    then show ?thesis
      by (auto split: list.splits)
  qed
qed

lemma adopt_nothing: "adopt_names [] old = old"
  by (cases old) (simp add: adopt_names_def dict_get_def)


text \<open>
  Claim C1. When the namespace folder is a directory and holds no certificate file, the
  compilation fails with the build error that asks for the folder to be deleted by hand,
  and the state it leaves is the state it found: nothing below the namespace folder (nor
  anywhere else) has been deleted or written, and no reserved name has changed.
\<close>

theorem namespace_without_certificate_aborts:
  assumes "is_dir (files w) (namespace_folder config)"
    and "\<not> is_file (files w) (cert_file config)"
  shows "read_cert config w = (Inl (JMCBuildError cert_not_found), w)
       \<and> compile ext config w = (Inl (JMCBuildError cert_not_found), w)"
  using read_cert_without_certificate[OF assms] by (simp add: compile_def)


theorem namespace_without_certificate_aborts_witness:
  "is_dir (files world0) (namespace_folder cfg0)
   \<and> \<not> is_file (files world0) (cert_file cfg0)
   \<and> files world0 [''out'', ''data'', ''ns'', ''functions'', ''old.mcfunction''] = Some (File ''say old'')
   \<and> compile (build_ext0 False) cfg0 world0 = (Inl (JMCBuildError cert_not_found), world0)"
  using namespace_without_certificate_aborts[of world0 cfg0 "build_ext0 False"]
  by (simp add: ns0 cert_path0 world0_def files0_def is_dir_def is_file_def)


text \<open>
  Claim C10. When the certificate file exists and one of its lines does not split at \<open>=\<close>
  into exactly two parts, reading the certificate does not fail: the five reserved names
  keep the values they had, the namespace folder is deleted and recreated holding only a
  fresh certificate of those names, and the compilation goes on to the front end and the
  build from that state. (Every directory above the namespace folder exists, as it does
  in a file system where the namespace folder is a directory.)
\<close>

theorem malformed_certificate_uses_defaults:
  assumes dir: "is_dir (files w) (namespace_folder config)"
    and cert: "files w (cert_file config) = Some (File cert_str)"
    and malformed: "list_ex (\<lambda>line. length (split CHR ''='' line) \<noteq> 2) (split newline cert_str)"
    and anc: "list_all (is_dir (files w)) (ancestors (namespace_folder config))"
  shows "\<exists>w'. read_cert config w = (Inr (), w')
       \<and> names w' = names w
       \<and> files w' = certified_files (namespace_folder config)
                       (cert_config_to_string (get_cert (names w))) (files w)
       \<and> compile ext config w =
           (case run_lexer ext config (names w') (files w') of
              Inl e \<Rightarrow> (Inl e, w')
            | Inr datapack \<Rightarrow> build ext datapack config w')"
proof -
  have "string_to_cert_config cert_str = Inl ValueError"
    using malformed by (simp add: string_to_cert_config_def cert_lines_malformed)
  then show ?thesis
    using read_cert_certified[OF dir cert anc]
    by (simp add: adopt_nothing compile_def)
qed


theorem malformed_certificate_uses_defaults_witness:
  "\<exists>w'. read_cert cfg0 (certified_world ''LOAD=a=b'') = (Inr (), w')
     \<and> names w' = names0
     \<and> files w' [''out'', ''data'', ''ns'', ''jmc.txt''] = Some (File (cert_config_to_string (get_cert names0)))
     \<and> files w' [''out'', ''data'', ''ns'', ''functions'', ''old.mcfunction''] = None
     \<and> files w' [''out'', ''data'', ''ns''] = Some Dir
     \<and> compile (build_ext0 False) cfg0 (certified_world ''LOAD=a=b'') =
          build (build_ext0 False) (datapack0 False names0) cfg0 w'"
proof -
  have "\<exists>w'. read_cert cfg0 (certified_world ''LOAD=a=b'') = (Inr (), w')
       \<and> names w' = names (certified_world ''LOAD=a=b'')
       \<and> files w' = certified_files (namespace_folder cfg0)
                       (cert_config_to_string (get_cert (names (certified_world ''LOAD=a=b''))))
                       (files (certified_world ''LOAD=a=b''))
       \<and> compile (build_ext0 False) cfg0 (certified_world ''LOAD=a=b'') =
           (case run_lexer (build_ext0 False) cfg0 (names w') (files w') of
              Inl e \<Rightarrow> (Inl e, w')
            | Inr datapack \<Rightarrow> build (build_ext0 False) datapack cfg0 w')"
    by (rule malformed_certificate_uses_defaults[of "certified_world ''LOAD=a=b''" cfg0 "''LOAD=a=b''" "build_ext0 False"])
       (simp_all add: ns0 cert_path0 certified_world_def files0_def is_dir_def newline_def)
  then obtain w' where w': "read_cert cfg0 (certified_world ''LOAD=a=b'') = (Inr (), w')"
      "names w' = names (certified_world ''LOAD=a=b'')"
      "files w' = certified_files (namespace_folder cfg0)
                       (cert_config_to_string (get_cert (names (certified_world ''LOAD=a=b''))))
                       (files (certified_world ''LOAD=a=b''))"
      "compile (build_ext0 False) cfg0 (certified_world ''LOAD=a=b'') =
           (case run_lexer (build_ext0 False) cfg0 (names w') (files w') of
              Inl e \<Rightarrow> (Inl e, w')
            | Inr datapack \<Rightarrow> build (build_ext0 False) datapack cfg0 w')"
    by blast
  show ?thesis
    using w'
    by (intro exI[of _ w'])
       (simp add: ns0 certified_files_def certified_world_def build_ext0_def)
qed


text \<open>
  Claim C6. When the certificate file parses, each of the five reserved names becomes the
  entry the certificate has under its key (a name the certificate does not mention keeps
  its value), and the fresh certificate written into the recreated namespace folder is
  the certificate of exactly these names.
\<close>

theorem certificate_names_adopted:
  assumes dir: "is_dir (files w) (namespace_folder config)"
    and cert: "files w (cert_file config) = Some (File cert_str)"
    and parse: "string_to_cert_config cert_str = Inr cert_config"
    and anc: "list_all (is_dir (files w)) (ancestors (namespace_folder config))"
  shows "\<exists>w'. read_cert config w = (Inr (), w')
       \<and> names w' = adopt_names cert_config (names w)
       \<and> files w' (cert_file config) = Some (File (cert_config_to_string (get_cert (names w'))))
       \<and> (\<forall>key value. key \<in> set [''LOAD'', ''TICK'', ''PRIVATE'', ''VAR'', ''INT'']
             \<longrightarrow> map_of cert_config key = Some value
             \<longrightarrow> map_of (get_cert (names w')) key = Some value)"
  using read_cert_certified[OF dir cert anc] parse
  by (auto simp: cert_file_eq certified_files_def get_cert_def adopt_names_def dict_get_def)


theorem certificate_names_adopted_witness:
  "\<exists>w'. read_cert cfg0 (certified_world cert0) = (Inr (), w')
     \<and> names w' = \<lparr>LOAD_NAME = ''my_load'', TICK_NAME = ''my_tick'', PRIVATE_NAME = ''my_private'',
                    VAR_NAME = ''my_var'', INT_NAME = ''my_int''\<rparr>
     \<and> files w' [''out'', ''data'', ''ns'', ''jmc.txt''] = Some (File cert0)"
proof -
  let ?c = "[(''LOAD'', ''my_load''), (''TICK'', ''my_tick''), (''PRIVATE'', ''my_private''),
      (''VAR'', ''my_var''), (''INT'', ''my_int'')]"
  have "\<exists>w'. read_cert cfg0 (certified_world cert0) = (Inr (), w')
       \<and> names w' = adopt_names ?c (names (certified_world cert0))
       \<and> files w' (cert_file cfg0) = Some (File (cert_config_to_string (get_cert (names w'))))
       \<and> (\<forall>key value. key \<in> set [''LOAD'', ''TICK'', ''PRIVATE'', ''VAR'', ''INT'']
             \<longrightarrow> map_of ?c key = Some value
             \<longrightarrow> map_of (get_cert (names w')) key = Some value)"
    by (rule certificate_names_adopted[of "certified_world cert0" cfg0 cert0 ?c])
       (simp_all add: ns0 cert_path0 certified_world_def files0_def is_dir_def cert0_parse)
  then obtain w' where w': "read_cert cfg0 (certified_world cert0) = (Inr (), w')"
      "names w' = adopt_names ?c (names (certified_world cert0))"
      "files w' (cert_file cfg0) = Some (File (cert_config_to_string (get_cert (names w'))))"
    by blast
  show ?thesis
    using w'
    by (intro exI[of _ w'])
       (simp add: cert_path0 certified_world_def adopt_names_def dict_get_def get_cert_def
          cert0_def names1_def)
qed

section \<open>Properties of the build\<close>

subsection \<open>Every step of the build only appends to the trace\<close>

lemma w_mkdir_trace: "w_mkdir e p w = (r, w') \<Longrightarrow> \<exists>rest. trace w' = trace w @ rest"
  by (auto simp: w_mkdir_def split: sum.splits)

lemma w_write_trace: "w_write p c w = (r, w') \<Longrightarrow> \<exists>rest. trace w' = trace w @ rest"
  by (auto simp: w_write_def split: sum.splits)

lemma read_func_tag_trace:
  "read_func_tag ext p config w = (r, w') \<Longrightarrow> \<exists>rest. trace w' = trace w @ rest"
  by (auto simp: read_func_tag_def Let_def split: option.splits node.splits json.splits sum.splits)

lemma merge_tags_trace:
  assumes "merge_tags ext dp config w = (r, w')"
  shows "\<exists>rest. trace w' = trace w @ rest"
  using assms
  apply (simp add: merge_tags_def split: prod.splits sum.splits if_splits)
  apply (auto dest!: w_mkdir_trace w_write_trace read_func_tag_trace)
  done

lemma write_functions_trace:
  "write_functions ns fns w = (r, w') \<Longrightarrow> \<exists>rest. trace w' = trace w @ rest"
proof (induction fns arbitrary: w)
  case Nil
  then show ?case by simp
next
  case (Cons f fns)
  obtain func_path func where f: "f = (func_path, func)" by (cases f)
  show ?case
    using Cons.prems Cons.IH f
    apply (simp add: Let_def split: if_splits prod.splits sum.splits)
    apply (auto dest!: w_mkdir_trace w_write_trace)
    apply fastforce
    done
qed

lemma write_jsons_trace:
  "write_jsons ext ns js w = (r, w') \<Longrightarrow> \<exists>rest. trace w' = trace w @ rest"
proof (induction js arbitrary: w)
  case Nil
  then show ?case by simp
next
  case (Cons f js)
  obtain json_path j where f: "f = (json_path, j)" by (cases f)
  show ?case
    using Cons.prems Cons.IH f
    apply (simp add: Let_def split: if_splits prod.splits sum.splits)
    apply (auto dest!: w_mkdir_trace w_write_trace)
    apply fastforce
    done
qed

lemma build_files_trace:
  assumes "build_files ext dp config w = (r, w')"
  shows "\<exists>rest. trace w' = trace w @ rest"
  using assms
  apply (simp add: build_files_def split: prod.splits sum.splits option.splits)
  apply (auto dest!: write_functions_trace write_jsons_trace w_write_trace)
  done

lemma build_trace:
  assumes "build ext datapack config w = (r, w')"
  shows "\<exists>rest. trace w' = trace w @ rest"
  using assms
  apply (simp add: build_def split: prod.splits sum.splits)
  apply (auto dest!: merge_tags_trace build_files_trace)
  done


subsection \<open>The tag files\<close>

lemma mkdir_exists:
  "list_all (is_dir fs) (ancestors p) \<Longrightarrow> fs p = Some Dir \<Longrightarrow> mkdir True p fs = Inr fs"
  by (auto simp: mkdir_def list_all_iff list_ex_iff is_dir_def is_file_def)

lemma mkdir_one:
  assumes "list_all (is_dir fs) (ancestors p)" and "fs p = None"
  shows "mkdir e p fs = Inr (fs(p \<mapsto> Dir))"
proof -
  have "(\<lambda>q. if (q = p \<or> q \<in> set (ancestors p)) \<and> fs q = None then Some Dir else fs q)
        = fs(p \<mapsto> Dir)"
    using assms by (auto simp: fun_eq_iff list_all_iff is_dir_def)
  moreover have "\<not> list_ex (is_file fs) (ancestors p)"
    using assms by (auto simp: list_all_iff list_ex_iff is_dir_def is_file_def)
  ultimately show ?thesis using assms by (simp add: mkdir_def)
qed

lemma strings_of_filter:
  "strings_of vs = Some ss \<Longrightarrow>
   filter_values prefix vs = Inr (map JString (filter (\<lambda>v. \<not> startswith v prefix) ss))"
proof (induction vs arbitrary: ss rule: strings_of.induct)
  case 1
  then show ?case by simp
next
  case (2 s rest)
  then show ?case by (auto split: option.splits)
qed simp_all

lemma read_func_tag_old:
  assumes "old_tag ext (files w) p = Some (members, ss)"
  shows "read_func_tag ext p config w =
     (Inr (AList.update ''values''
             (JArray (map JString (filter (\<lambda>v. \<not> startswith v (namespace config @ '':'')) ss)))
             members),
      w\<lparr>trace := trace w @ (if is_file (files w) p then [EvRead p] else [])\<rparr>)"
  using assms
  by (auto simp: old_tag_def read_func_tag_def is_file_def iter_json_def strings_of_filter
      split: option.splits node.splits json.splits)

lemma read_func_tag_errors:
  "files w p = Some (File c) \<Longrightarrow> json_loads ext c = None \<Longrightarrow>
     read_func_tag ext p config w =
       (Inl (JMCBuildError (malformed_json p)), w\<lparr>trace := trace w @ [EvRead p]\<rparr>)"
  "files w p = Some (File c) \<Longrightarrow> json_loads ext c = Some (JObject members) \<Longrightarrow>
   map_of members ''values'' = None \<Longrightarrow>
     read_func_tag ext p config w =
       (Inl (JMCBuildError (values_not_found p)), w\<lparr>trace := trace w @ [EvRead p]\<rparr>)"
  by (simp_all add: read_func_tag_def)

lemma append_value_update:
  "append_value x (AList.update ''values'' (JArray vs) members) =
     Inr (AList.update ''values'' (JArray (vs @ [JString x])) members)"
  by (simp add: append_value_def update_conv' update_last)

lemma tag_paths:
  "load_tag config = functions_tags_folder config @ [''load.json'']"
  "tick_tag config = functions_tags_folder config @ [''tick.json'']"
  by (simp_all add: load_tag_def tick_tag_def path_join_def Path_def startswith_def)

lemma mkdir_True_ok:
  assumes "\<not> list_ex (is_file fs) (ancestors p)" and "\<not> is_file fs p"
  shows "\<exists>fs1. mkdir True p fs = Inr fs1 \<and> fs1 p = Some Dir
           \<and> (\<forall>q. length p < length q \<longrightarrow> fs1 q = fs q)"
proof (cases "fs p")
  case None
  then show ?thesis using assms by (auto simp: mkdir_def in_ancestors)
next
  case (Some n)
  then show ?thesis using assms by (cases n) (auto simp: mkdir_def is_file_def)
qed

lemma old_tag_cong: "fs1 p = fs p \<Longrightarrow> old_tag ext fs1 p = old_tag ext fs p"
  by (simp add: old_tag_def)

lemma old_tag_not_dir: "old_tag ext fs p = Some r \<Longrightarrow> fs p \<noteq> Some Dir"
  by (auto simp: old_tag_def)

lemma mkdir_result:
  assumes "mkdir e p fs = Inr fs1"
  shows "fs1 p = Some Dir" and "\<And>q. length p < length q \<Longrightarrow> fs1 q = fs q"
  using assms
  by (auto simp: mkdir_def in_ancestors split: if_splits option.splits node.splits)

lemma merge_tags_explicit:
  assumes mk: "mkdir True (functions_tags_folder config) (files w) = Inr fs1"
    and load: "old_tag ext (files w) (load_tag config) = Some (load_members, load_values)"
    and tick: "old_tag ext (files w) (tick_tag config) = Some (tick_members, tick_values)"
  shows "merge_tags ext dp config w =
     (Inr (),
      w\<lparr>files :=
          (if has_tick (names w) dp
           then fs1(load_tag config \<mapsto> File (json_dump ext
                      (merged_tag (namespace config) load_members load_values (LOAD_NAME (names w)))),
                    tick_tag config \<mapsto> File (json_dump ext
                      (merged_tag (namespace config) tick_members tick_values (TICK_NAME (names w)))))
           else fs1(load_tag config \<mapsto> File (json_dump ext
                      (merged_tag (namespace config) load_members load_values (LOAD_NAME (names w)))))),
        trace := trace w @ [EvMkdir (functions_tags_folder config)]
                 @ (if is_file (files w) (load_tag config) then [EvRead (load_tag config)] else [])
                 @ (if is_file (files w) (tick_tag config) then [EvRead (tick_tag config)] else [])
                 @ [EvWrite (load_tag config)]
                 @ (if has_tick (names w) dp then [EvWrite (tick_tag config)] else [])\<rparr>)"
proof -
  let ?tags = "functions_tags_folder config"
  let ?load = "?tags @ [''load.json'']"
  let ?tick = "?tags @ [''tick.json'']"
  note dirs = mkdir_result(1)[OF mk] and same = mkdir_result(2)[OF mk]
  let ?w1 = "w\<lparr>files := fs1, trace := trace w @ [EvMkdir ?tags]\<rparr>"
  have s1: "w_mkdir True ?tags w = (Inr (), ?w1)"
    using mk by (simp add: w_mkdir_def)
  have l1: "old_tag ext (files ?w1) ?load = Some (load_members, load_values)"
    using load same[of ?load] by (simp add: tag_paths old_tag_def)
  let ?lj = "AList.update ''values''
             (JArray (map JString (filter (\<lambda>v. \<not> startswith v (namespace config @ '':'')) load_values)))
             load_members"
  let ?w2 = "?w1\<lparr>trace := trace ?w1 @ (if is_file (files ?w1) ?load then [EvRead ?load] else [])\<rparr>"
  have s2: "read_func_tag ext ?load config ?w1 = (Inr ?lj, ?w2)"
    by (rule read_func_tag_old[OF l1])
  have t1: "old_tag ext (files ?w2) ?tick = Some (tick_members, tick_values)"
    using tick same[of ?tick] by (simp add: tag_paths old_tag_def)
  let ?tj = "AList.update ''values''
             (JArray (map JString (filter (\<lambda>v. \<not> startswith v (namespace config @ '':'')) tick_values)))
             tick_members"
  let ?w3 = "?w2\<lparr>trace := trace ?w2 @ (if is_file (files ?w2) ?tick then [EvRead ?tick] else [])\<rparr>"
  have s3: "read_func_tag ext ?tick config ?w2 = (Inr ?tj, ?w3)"
    by (rule read_func_tag_old[OF t1])
  have nd_load: "fs1 ?load \<noteq> Some Dir"
    using old_tag_not_dir[OF l1] by simp
  have nd_tick: "fs1 ?tick \<noteq> Some Dir"
    using old_tag_not_dir[OF t1] by simp
  have wl: "write_file ?load c fs1 = Inr (fs1(?load \<mapsto> File c))" for c
    using nd_load dirs by (simp add: write_file_def is_dir_def parent_def)
  have wt: "write_file ?tick c (fs1(?load \<mapsto> File d)) = Inr (fs1(?load \<mapsto> File d, ?tick \<mapsto> File c))" for c d
    using nd_tick dirs by (simp add: write_file_def is_dir_def parent_def)
  have isf: "is_file fs1 ?load = is_file (files w) ?load" "is_file fs1 ?tick = is_file (files w) ?tick"
    using same[of ?load] same[of ?tick] by (simp_all add: is_file_def)
  show ?thesis
    using s1 s2 s3 wl wt isf
    by (simp add: merge_tags_def tag_paths append_value_update w_write_def merged_tag_def
        del: fun_upd_apply)
qed

lemma merge_tags_ok:
  assumes anc: "\<not> list_ex (is_file (files w)) (ancestors (functions_tags_folder config))"
    and tags: "\<not> is_file (files w) (functions_tags_folder config)"
    and load: "old_tag ext (files w) (load_tag config) = Some (load_members, load_values)"
    and tick: "old_tag ext (files w) (tick_tag config) = Some (tick_members, tick_values)"
  shows "\<exists>w'. merge_tags ext dp config w = (Inr (), w')
     \<and> names w' = names w
     \<and> files w' (load_tag config) =
         Some (File (json_dump ext
           (merged_tag (namespace config) load_members load_values (LOAD_NAME (names w)))))
     \<and> (has_tick (names w) dp \<longrightarrow>
          files w' (tick_tag config) =
            Some (File (json_dump ext
              (merged_tag (namespace config) tick_members tick_values (TICK_NAME (names w))))))"
proof -
  from mkdir_True_ok[OF anc tags] obtain fs1 where
    mk: "mkdir True (functions_tags_folder config) (files w) = Inr fs1" by blast
  show ?thesis
    using merge_tags_explicit[OF mk load tick, of dp]
    by (simp add: tag_paths)
qed

subsection \<open>The concrete compilation, step by step\<close>

lemma read_cert0:
  "read_cert cfg0 (certified_world cert0) =
     (Inr (),
      \<lparr>files = certified_files [''out'', ''data'', ''ns''] cert0 files0,
       names = names1,
       trace = [EvRead [''out'', ''data'', ''ns'', ''jmc.txt''], EvRmtree [''out'', ''data'', ''ns''],
                EvMkdir [''out'', ''data'', ''ns''], EvWrite [''out'', ''data'', ''ns'', ''jmc.txt'']]\<rparr>)"
proof -
  have "read_cert cfg0 (certified_world cert0) = (Inr (),
      (certified_world cert0)\<lparr>files := certified_files (namespace_folder cfg0)
                   (cert_config_to_string (get_cert (adopt_names
                      (case string_to_cert_config cert0 of Inl e \<Rightarrow> [] | Inr c \<Rightarrow> c) (names (certified_world cert0)))))
                   (files (certified_world cert0)),
        names := adopt_names (case string_to_cert_config cert0 of Inl e \<Rightarrow> [] | Inr c \<Rightarrow> c)
                   (names (certified_world cert0)),
        trace := trace (certified_world cert0) @ [EvRead (cert_file cfg0), EvRmtree (namespace_folder cfg0),
                            EvMkdir (namespace_folder cfg0), EvWrite (cert_file cfg0)]\<rparr>)"
    by (rule read_cert_certified)
       (simp_all add: ns0 cert_path0 certified_world_def files0_def is_dir_def)
  moreover have "certified_files [''out'', ''data'', ''ns''] c
                   (files0([''out'', ''data'', ''ns'', ''jmc.txt''] \<mapsto> File d))
               = certified_files [''out'', ''data'', ''ns''] c files0" for c d
    by (auto simp: certified_files_def fun_eq_iff)
  ultimately show ?thesis
    by (simp add: ns0 cert_path0 certified_world_def cert0_parse adopt_names_def dict_get_def
        get_cert_def names1_def) (simp add: cert0_def get_cert_def names1_def)
qed

lemma old_load0:
  "old_tag (build_ext0 b) (certified_files [''out'', ''data'', ''ns''] cert0 files0) (load_tag cfg0) =
     Some ([(''values'', JArray [JString ''other_ns:foo'', JString ''ns:old''])],
           [''other_ns:foo'', ''ns:old''])"
  by (simp add: old_tag_def load_tag0 certified_files_def files0_def build_ext0_def json_loads0_def
      startswith_def)

lemma old_tick0:
  "old_tag (build_ext0 b) (certified_files [''out'', ''data'', ''ns''] cert0 files0) (tick_tag cfg0) =
     Some ([(''values'', JArray [JString ''other_ns:bar'', JString ''ns:my_tick''])],
           [''other_ns:bar'', ''ns:my_tick''])"
  by (simp add: old_tag_def tick_tag0 certified_files_def files0_def build_ext0_def json_loads0_def
      startswith_def)

lemma mkdir_tags0:
  "mkdir True (functions_tags_folder cfg0) (certified_files [''out'', ''data'', ''ns''] cert0 files0)
     = Inr (certified_files [''out'', ''data'', ''ns''] cert0 files0)"
  by (rule mkdir_exists) (simp_all add: tags0 certified_files_def files0_def is_dir_def)

lemma merged_load0:
  "json_dump (build_ext0 b) (merged_tag (namespace cfg0)
      [(''values'', JArray [JString ''other_ns:foo'', JString ''ns:old''])]
      [''other_ns:foo'', ''ns:old''] (LOAD_NAME names1)) = ''values: other_ns:foo ns:my_load''"
  by (simp add: build_ext0_def json_dump0_def merged_tag_def cfg0_def names1_def startswith_def)

lemma merged_tick0:
  "json_dump (build_ext0 b) (merged_tag (namespace cfg0)
      [(''values'', JArray [JString ''other_ns:bar'', JString ''ns:my_tick''])]
      [''other_ns:bar'', ''ns:my_tick''] (TICK_NAME names1)) = ''values: other_ns:bar ns:my_tick''"
  by (simp add: build_ext0_def json_dump0_def merged_tag_def cfg0_def names1_def startswith_def)

lemma merge0:
  "merge_tags (build_ext0 False) (datapack0 False names1) cfg0 W1 =
     (Inr (),
      W1\<lparr>files := (files W1)(load_tag cfg0 \<mapsto> File ''values: other_ns:foo ns:my_load''),
         trace := trace W1 @ [EvMkdir (functions_tags_folder cfg0), EvRead (load_tag cfg0),
                             EvRead (tick_tag cfg0), EvWrite (load_tag cfg0)]\<rparr>)"
proof -
  have ht: "\<not> has_tick names1 (datapack0 False names1)"
    by (simp add: has_tick_def datapack0_def names1_def)
  have f: "is_file (files W1) (load_tag cfg0)" "is_file (files W1) (tick_tag cfg0)"
    by (simp_all add: W1_def load_tag0 tick_tag0 certified_files_def files0_def is_file_def)
  have "files W1 = certified_files [''out'', ''data'', ''ns''] cert0 files0" "names W1 = names1"
    by (simp_all add: W1_def)
  then show ?thesis
    using merge_tags_explicit[of cfg0 W1 "files W1" "build_ext0 False" _ _ _ _ "datapack0 False names1"]
      old_load0[of False] old_tick0[of False] mkdir_tags0 ht f merged_load0[of False]
    by simp
qed

end
